theory Spec2Isabelle
  imports Main "HOL-Library.Word"
begin

unbundle bit_operations_syntax

section \<open>Outcomes shared by both drivers\<close>

text \<open>
  \<open>PIOS_Assert\<close> halts the firmware when its condition is false; the model returns
  \<open>Inl Assert_failed\<close> there.  A store through an index outside the object it indexes
  and a read through a null pointer are undefined behaviour in C; the model names them
  \<open>Inl Undefined_behaviour\<close> instead of inventing a memory layout.
\<close>

datatype error = Assert_failed | Undefined_behaviour

section \<open>MS5611 barometer driver (pios\_ms5611\_spi.c)\<close>

subsection \<open>Constants and data\<close>

definition MS5611_RESET :: int where "MS5611_RESET = 0x1E"
definition MS5611_CALIB_ADDR :: int where "MS5611_CALIB_ADDR = 0xA2"
definition MS5611_ADC_READ :: int where "MS5611_ADC_READ = 0x00"
definition MS5611_PRES_ADDR :: int where "MS5611_PRES_ADDR = 0x40"
definition MS5611_TEMP_ADDR :: int where "MS5611_TEMP_ADDR = 0x50"

definition PIOS_MS5611_DEV_MAGIC :: "32 word" where
  "PIOS_MS5611_DEV_MAGIC = 0xefba8e10"

datatype conversion_type = PRESSURE_CONV | TEMPERATURE_CONV

text \<open>
  \<open>struct pios_ms5611_cfg\<close> is declared in pios\_ms5611\_priv.h.  The model keeps the two
  fields the driver reads, as the values the C expressions see: \<open>oversampling\<close> as the
  integer that is added to the command base address and switched on,
  \<open>temperature_interleaving\<close> after its conversion to \<open>uint32_t\<close>.
\<close>

record pios_ms5611_cfg =
  oversampling :: int
  temperature_interleaving :: "32 word"

text \<open>
  The enumerators \<open>MS5611_OSR_256\<close> ... \<open>MS5611_OSR_4096\<close> are declared in the same
  header; their values are a parameter of \<open>PIOS_MS5611_GetDelay\<close> and of its callers.
\<close>

record pios_ms5611_osr =
  MS5611_OSR_256 :: int
  MS5611_OSR_512 :: int
  MS5611_OSR_1024 :: int
  MS5611_OSR_2048 :: int
  MS5611_OSR_4096 :: int

text \<open>
  \<open>struct ms5611_dev\<close> without its three handles (\<open>task\<close>, \<open>queue\<close>, \<open>busy\<close>); what is
  done through them is recorded in the trace below.
\<close>

record ms5611_dev =
  cfg :: pios_ms5611_cfg
  spi_id :: "32 word"
  slave_num :: "32 word"
  pressure_unscaled :: "64 word"
  temperature_unscaled :: "64 word"
  calibration :: "16 word list"
  current_conversion_type :: conversion_type
  magic :: "32 word"

text \<open>
  What the driver does to the world outside its own memory, in program order.
  \<open>Command c\<close>: \<open>PIOS_MS5611_WriteCommand\<close> clocked the byte \<open>c\<close> out.
  \<open>ReadOut a n\<close>: \<open>PIOS_MS5611_Read\<close> clocked the address \<open>a\<close> out and \<open>n\<close> bytes in.
  \<open>Queue_Send t p tmo\<close>: a sample computed from \<open>temperature_unscaled = t\<close> and
  \<open>pressure_unscaled = p\<close> was handed to \<open>PIOS_Queue_Send\<close> with timeout \<open>tmo\<close> (the
  floating-point scaling of the sample is not modelled).
\<close>

datatype event =
    Command "8 word"
  | ReadOut "8 word" nat
  | DELAY_WaitmS int
  | Thread_Sleep int
  | Semaphore_Take
  | Semaphore_Give
  | Queue_Send "64 word" "64 word" int
  | SENSORS_Register
  | Thread_Create

text \<open>
  The state of the driver and of its surroundings.
  \<^item> \<open>dev\<close> is the file-scope pointer \<open>static struct ms5611_dev *dev\<close>, \<open>None\<close> for
    \<open>NULL\<close>.
  \<^item> \<open>delta_temp\<close> and \<open>temperature\<close> are the two \<open>static int64_t\<close> locals of
    \<open>PIOS_MS5611_ReadADC\<close>.
  \<^item> The SPI bus answers from outside: \<open>spi_claim_ok k\<close> tells whether the \<open>k\<close>-th
    call of \<open>PIOS_SPI_ClaimBus\<close> gets the bus, \<open>spi_block k\<close> gives the status of the
    \<open>k\<close>-th \<open>PIOS_SPI_TransferBlock\<close> (true for success) and the bytes it receives;
    \<open>spi_claims\<close> and \<open>spi_blocks\<close> count the calls made so far.
\<close>

record ms5611_world =
  dev :: "ms5611_dev option"
  delta_temp :: "64 word"
  temperature :: "64 word"
  spi_claim_ok :: "nat \<Rightarrow> bool"
  spi_claims :: nat
  spi_block :: "nat \<Rightarrow> bool \<times> (nat \<Rightarrow> 8 word)"
  spi_blocks :: nat
  trace :: "event list"

definition emit :: "event \<Rightarrow> ms5611_world \<Rightarrow> ms5611_world" where
  "emit e w = w\<lparr>trace := trace w @ [e]\<rparr>"

subsection \<open>Allocation, validation, initialisation\<close>

text \<open>The answers of the allocator and of the operating system during initialisation.\<close>

record alloc_env =
  malloc_ok :: bool
  queue_ok :: bool
  semaphore_ok :: bool
  thread_ok :: bool

text \<open>The structure after \<open>memset(ms5611_dev, 0, sizeof(*ms5611_dev))\<close>.\<close>

definition zeroed_dev :: ms5611_dev where
  "zeroed_dev =
     \<lparr>cfg = \<lparr>oversampling = 0, temperature_interleaving = 0\<rparr>,
      spi_id = 0, slave_num = 0, pressure_unscaled = 0, temperature_unscaled = 0,
      calibration = replicate 6 0, current_conversion_type = PRESSURE_CONV, magic = 0\<rparr>"

definition PIOS_MS5611_alloc :: "alloc_env \<Rightarrow> error + ms5611_dev option" where
  "PIOS_MS5611_alloc A =
     (if \<not> malloc_ok A then Inr None
      else if \<not> queue_ok A then Inr None
      else if \<not> semaphore_ok A then Inl Assert_failed
      else Inr (Some (zeroed_dev\<lparr>magic := PIOS_MS5611_DEV_MAGIC\<rparr>)))"

definition PIOS_MS5611_Validate :: "ms5611_dev option \<Rightarrow> int" where
  "PIOS_MS5611_Validate p =
     (case p of
        None \<Rightarrow> - 1
      | Some d \<Rightarrow>
          if magic d \<noteq> PIOS_MS5611_DEV_MAGIC then - 2
          else if spi_id d = 0 then - 3
          else 0)"

text \<open>
  The status \<open>PIOS_MS5611_ClaimDevice\<close> and \<open>PIOS_MS5611_ReleaseDevice\<close> return depends on
  the semaphore and is discarded by every caller; the model keeps the assertion and
  the call.
\<close>

definition PIOS_MS5611_ClaimDevice :: "ms5611_world \<Rightarrow> error + ms5611_world" where
  "PIOS_MS5611_ClaimDevice w =
     (if PIOS_MS5611_Validate (dev w) = 0 then Inr (emit Semaphore_Take w)
      else Inl Assert_failed)"

definition PIOS_MS5611_ReleaseDevice :: "ms5611_world \<Rightarrow> error + ms5611_world" where
  "PIOS_MS5611_ReleaseDevice w =
     (if PIOS_MS5611_Validate (dev w) = 0 then Inr (emit Semaphore_Give w)
      else Inl Assert_failed)"

definition PIOS_MS5611_ClaimBus :: "ms5611_world \<Rightarrow> int \<times> ms5611_world" where
  "PIOS_MS5611_ClaimBus w =
     (if PIOS_MS5611_Validate (dev w) \<noteq> 0 then (- 1, w)
      else if \<not> spi_claim_ok w (spi_claims w) then (- 2, w\<lparr>spi_claims := spi_claims w + 1\<rparr>)
      else (0, w\<lparr>spi_claims := spi_claims w + 1\<rparr>))"

text \<open>The status of \<open>PIOS_SPI_ReleaseBus\<close> is passed on and read by no caller.\<close>

definition PIOS_MS5611_ReleaseBus :: "ms5611_world \<Rightarrow> int \<times> ms5611_world" where
  "PIOS_MS5611_ReleaseBus w =
     (if PIOS_MS5611_Validate (dev w) \<noteq> 0 then (- 1, w) else (0, w))"

text \<open>
  \<open>PIOS_MS5611_Read\<close> returns its status, the caller's buffer and the world.  The buffer
  is written only by the block transfer.
\<close>

definition PIOS_MS5611_Read ::
  "ms5611_world \<Rightarrow> 8 word \<Rightarrow> 8 word list \<Rightarrow> nat \<Rightarrow> int \<times> 8 word list \<times> ms5611_world" where
  "PIOS_MS5611_Read w address buffer len =
     (if PIOS_MS5611_Validate (dev w) \<noteq> 0 then (- 1, buffer, w)
      else
        case PIOS_MS5611_ClaimBus w of
          (claimed, w1) \<Rightarrow>
            if claimed \<noteq> 0 then (- 2, buffer, w1)
            else
              let (ok, rx) = spi_block w1 (spi_blocks w1);
                  w2 = emit (ReadOut address len) (w1\<lparr>spi_blocks := spi_blocks w1 + 1\<rparr>);
                  buffer' = map rx [0..<len] @ drop len buffer;
                  rc = (if \<not> ok then - 3 else 0)
              in (rc, buffer', snd (PIOS_MS5611_ReleaseBus w2)))"

definition PIOS_MS5611_WriteCommand :: "ms5611_world \<Rightarrow> 8 word \<Rightarrow> int \<times> ms5611_world" where
  "PIOS_MS5611_WriteCommand w command =
     (if PIOS_MS5611_Validate (dev w) \<noteq> 0 then (- 1, w)
      else
        case PIOS_MS5611_ClaimBus w of
          (claimed, w1) \<Rightarrow>
            if claimed \<noteq> 0 then (- 2, w1)
            else (0, snd (PIOS_MS5611_ReleaseBus (emit (Command command) w1))))"

definition update_dev :: "(ms5611_dev \<Rightarrow> ms5611_dev) \<Rightarrow> ms5611_world \<Rightarrow> ms5611_world" where
  "update_dev f w = w\<lparr>dev := map_option f (dev w)\<rparr>"

text \<open>
  One pass of the calibration loop of \<open>PIOS_MS5611_SPI_Init\<close>: the status of the read is
  dropped and the two bytes of \<open>data\<close> are stored whatever it was.
\<close>

definition read_calibration ::
  "nat \<Rightarrow> 8 word list \<times> ms5611_world \<Rightarrow> 8 word list \<times> ms5611_world" where
  "read_calibration i st =
     (case st of (data, w) \<Rightarrow>
        case PIOS_MS5611_Read w (word_of_int (MS5611_CALIB_ADDR + int i * 2)) data 2 of
          (_, data', w1) \<Rightarrow>
            (data',
             update_dev (\<lambda>d. d\<lparr>calibration := (calibration d)
                 [i := push_bit 8 (ucast (data' ! 0)) OR ucast (data' ! 1)]\<rparr>) w1))"

text \<open>
  \<open>data\<close> is the content of the uninitialised local \<open>uint8_t data[2]\<close> on entry.
\<close>

definition PIOS_MS5611_SPI_Init ::
  "alloc_env \<Rightarrow> 8 word list \<Rightarrow> ms5611_world \<Rightarrow> 32 word \<Rightarrow> 32 word \<Rightarrow> pios_ms5611_cfg
     \<Rightarrow> error + (int \<times> ms5611_world)" where
  "PIOS_MS5611_SPI_Init A data w spi_id' slave_num' cfg' =
     (case PIOS_MS5611_alloc A of
        Inl e \<Rightarrow> Inl e
      | Inr None \<Rightarrow> Inr (- 1, w\<lparr>dev := None\<rparr>)
      | Inr (Some d) \<Rightarrow>
          let w1 = w\<lparr>dev := Some (d\<lparr>spi_id := spi_id', slave_num := slave_num', cfg := cfg'\<rparr>)\<rparr>
          in case PIOS_MS5611_WriteCommand w1 (word_of_int MS5611_RESET) of
               (rc, w2) \<Rightarrow>
                 if rc \<noteq> 0 then Inr (- 2, w2)
                 else
                   let w3 = emit (DELAY_WaitmS 20) w2;
                       (_, w4) = fold read_calibration [0..<6] (data, w3);
                       w5 = emit SENSORS_Register w4;
                       w6 = emit Thread_Create w5
                   in if \<not> thread_ok A then Inl Assert_failed else Inr (0, w6))"

subsection \<open>Starting a conversion\<close>

text \<open>
  The loop \<open>while (PIOS_MS5611_WriteCommand(c) != 0) continue;\<close>.  It has no exit other
  than a successful write, so it need not return.
\<close>

partial_function (option) write_until_accepted ::
  "ms5611_world \<Rightarrow> 8 word \<Rightarrow> ms5611_world option" where
  "write_until_accepted w c =
     (case PIOS_MS5611_WriteCommand w c of
        (rc, w') \<Rightarrow> if rc \<noteq> 0 then write_until_accepted w' c else Some w')"

declare write_until_accepted.simps [code]

text \<open>
  \<open>None\<close>: the call does not return.  The \<open>default\<close> branch of the \<open>switch\<close> cannot be
  taken by a value of the enumeration.
\<close>

definition PIOS_MS5611_StartADC ::
  "ms5611_world \<Rightarrow> conversion_type \<Rightarrow> (int \<times> ms5611_world) option" where
  "PIOS_MS5611_StartADC w type =
     (if PIOS_MS5611_Validate (dev w) \<noteq> 0 then Some (- 1, w)
      else
        case (case type of
                TEMPERATURE_CONV \<Rightarrow>
                  write_until_accepted w
                    (word_of_int (MS5611_TEMP_ADDR + oversampling (cfg (the (dev w)))))
              | PRESSURE_CONV \<Rightarrow>
                  write_until_accepted w
                    (word_of_int (MS5611_PRES_ADDR + oversampling (cfg (the (dev w)))))) of
          None \<Rightarrow> None
        | Some w' \<Rightarrow> Some (0, update_dev (\<lambda>d. d\<lparr>current_conversion_type := type\<rparr>) w'))"

definition PIOS_MS5611_GetDelay :: "pios_ms5611_osr \<Rightarrow> ms5611_world \<Rightarrow> int" where
  "PIOS_MS5611_GetDelay K w =
     (if PIOS_MS5611_Validate (dev w) \<noteq> 0 then 100
      else
        let osr = oversampling (cfg (the (dev w)))
        in if osr = MS5611_OSR_256 K then 2
           else if osr = MS5611_OSR_512 K then 2
           else if osr = MS5611_OSR_1024 K then 3
           else if osr = MS5611_OSR_2048 K then 5
           else if osr = MS5611_OSR_4096 K then 10
           else 10)"

subsection \<open>Reading a conversion\<close>

text \<open>
  \<open>(data[0] << 16) | (data[1] << 8) | data[2]\<close>, stored in a \<open>uint32_t\<close>.
\<close>

definition raw_adc :: "8 word list \<Rightarrow> 32 word" where
  "raw_adc data = push_bit 16 (ucast (data ! 0)) OR push_bit 8 (ucast (data ! 1)) OR ucast (data ! 2)"

text \<open>
  The arithmetic of the two branches of \<open>PIOS_MS5611_ReadADC\<close>.  \<open>int\<close> has 32 bits on
  the target, \<open>int64_t\<close> is a \<open>64 word\<close> read with \<open>sint\<close>, and \<open>>>\<close> on it is the
  arithmetic shift \<open>signed_drop_bit\<close>; \<open><s\<close> is the signed comparison.

  The temperature branch, from the calibration words and \<open>raw_temperature\<close>: the new
  values of the statics \<open>delta_temp\<close> and \<open>temperature\<close> and of
  \<open>dev->temperature_unscaled\<close>.
\<close>

definition temperature_compensation ::
  "16 word list \<Rightarrow> 32 word \<Rightarrow> 64 word \<times> 64 word \<times> 64 word" where
  "temperature_compensation cal raw_temperature =
     (let dT = (scast (raw_temperature - push_bit 8 (ucast (cal ! 4) :: 32 word)) :: 64 word);
          temp = 2000 + signed_drop_bit 23 (dT * ucast (cal ! 5));
          unscaled = temp;
          unscaled = (if temp <s 2000 then unscaled - signed_drop_bit 31 (dT * dT)
                      else unscaled)
      in (dT, temp, unscaled))"

text \<open>
  The pressure branch, from the calibration words, the statics \<open>delta_temp\<close> and
  \<open>temperature\<close>, \<open>dev->temperature_unscaled\<close> and \<open>raw_pressure\<close>: the new value of
  \<open>dev->pressure_unscaled\<close>.
\<close>

definition pressure_compensation ::
  "16 word list \<Rightarrow> 64 word \<Rightarrow> 64 word \<Rightarrow> 64 word \<Rightarrow> 32 word \<Rightarrow> 64 word" where
  "pressure_compensation cal dT temp unscaled raw_pressure =
     (let offset = push_bit 16 (ucast (cal ! 1) :: 64 word)
                   + signed_drop_bit 7 (ucast (cal ! 3) * dT);
          sens = push_bit 15 (ucast (cal ! 0) :: 64 word);
          sens = sens + signed_drop_bit 8 (ucast (cal ! 2) * dT);
          (offset, sens) =
            (if temp <s 2000 then
               let offset = offset - signed_drop_bit 1 (5 * (temp - 2000) * (temp - 2000));
                   sens = sens - signed_drop_bit 2 (5 * (temp - 2000) * (temp - 2000))
               in if unscaled <s - 1500 then
                    (offset - 7 * (temp + 1500) * (temp + 1500),
                     sens - signed_drop_bit 1 (11 * (temp + 1500) * (temp + 1500)))
                  else (offset, sens)
             else (offset, sens))
      in signed_drop_bit 15 (signed_drop_bit 21 (ucast raw_pressure * sens) - offset))"

text \<open>
  The pointer \<open>dev\<close> is read with \<open>the\<close> only behind a successful
  \<open>PIOS_MS5611_Validate\<close>.  The local buffer \<open>data\<close> is read only after a read that
  has filled it; it starts as zeros here.
\<close>

definition PIOS_MS5611_ReadADC :: "ms5611_world \<Rightarrow> int \<times> ms5611_world" where
  "PIOS_MS5611_ReadADC w =
     (if PIOS_MS5611_Validate (dev w) \<noteq> 0 then (- 1, w)
      else if current_conversion_type (the (dev w)) = TEMPERATURE_CONV then
        (case PIOS_MS5611_Read w (word_of_int MS5611_ADC_READ) (replicate 3 0) 3 of
           (rc, data, w1) \<Rightarrow>
             if rc \<noteq> 0 then (- 1, w1)
             else
               case temperature_compensation (calibration (the (dev w1))) (raw_adc data) of
                 (dT, temp, unscaled) \<Rightarrow>
                   (0, update_dev (\<lambda>d. d\<lparr>temperature_unscaled := unscaled\<rparr>)
                         (w1\<lparr>delta_temp := dT, temperature := temp\<rparr>)))
      else
        (case PIOS_MS5611_Read w (word_of_int MS5611_ADC_READ) (replicate 3 0) 3 of
           (rc, data, w1) \<Rightarrow>
             if rc \<noteq> 0 then (- 1, w1)
             else
               (0, update_dev
                     (\<lambda>d. d\<lparr>pressure_unscaled :=
                        pressure_compensation (calibration d) (delta_temp w1) (temperature w1)
                          (temperature_unscaled d) (raw_adc data)\<rparr>)
                     w1)))"

subsection \<open>Self-test and sampling task\<close>

text \<open>
  The block both the self-test and the task repeat:
  \<open>ClaimDevice(); StartADC(type); delay(GetDelay()); ReadADC(); ReleaseDevice();\<close>
  with \<open>delay\<close> either \<open>PIOS_DELAY_WaitmS\<close> or \<open>PIOS_Thread_Sleep\<close>.  The result carries
  the status of \<open>PIOS_MS5611_ReadADC\<close>; the status of \<open>PIOS_MS5611_StartADC\<close> is
  dropped, as in the source.
\<close>

definition conversion_cycle ::
  "(int \<Rightarrow> event) \<Rightarrow> pios_ms5611_osr \<Rightarrow> conversion_type \<Rightarrow> ms5611_world
     \<Rightarrow> (error + (int \<times> ms5611_world)) option" where
  "conversion_cycle delay K type w =
     (case PIOS_MS5611_ClaimDevice w of
        Inl e \<Rightarrow> Some (Inl e)
      | Inr w1 \<Rightarrow>
          (case PIOS_MS5611_StartADC w1 type of
             None \<Rightarrow> None
           | Some (_, w2) \<Rightarrow>
               (let w3 = emit (delay (PIOS_MS5611_GetDelay K w2)) w2
                in (case PIOS_MS5611_ReadADC w3 of
                      (rc, w4) \<Rightarrow>
                        (case PIOS_MS5611_ReleaseDevice w4 of
                           Inl e \<Rightarrow> Some (Inl e)
                         | Inr w5 \<Rightarrow> Some (Inr (rc, w5)))))))"

definition PIOS_MS5611_SPI_Test ::
  "pios_ms5611_osr \<Rightarrow> ms5611_world \<Rightarrow> (error + (int \<times> ms5611_world)) option" where
  "PIOS_MS5611_SPI_Test K w =
     (if PIOS_MS5611_Validate (dev w) \<noteq> 0 then Some (Inr (- 1, w))
      else
        (case conversion_cycle DELAY_WaitmS K TEMPERATURE_CONV w of
           None \<Rightarrow> None
         | Some (Inl e) \<Rightarrow> Some (Inl e)
         | Some (Inr (_, w1)) \<Rightarrow>
             (case conversion_cycle DELAY_WaitmS K PRESSURE_CONV w1 of
                None \<Rightarrow> None
              | Some (Inl e) \<Rightarrow> Some (Inl e)
              | Some (Inr (_, w2)) \<Rightarrow>
                  (if temperature_unscaled (the (dev w2)) <s - 4000 \<or>
                      8500 <s temperature_unscaled (the (dev w2)) \<or>
                      pressure_unscaled (the (dev w2)) <s 1000 \<or>
                      120000 <s pressure_unscaled (the (dev w2))
                   then Some (Inr (- 1, w2))
                   else Some (Inr (0, w2))))))"

text \<open>
  One pass through the body of \<open>while (1)\<close> in \<open>PIOS_MS5611_Task\<close>.  The state of the loop
  is the world and the two locals \<open>temp_press_interleave_count\<close> (a \<open>uint32_t\<close>, so the
  decrement wraps) and \<open>read_adc_result\<close>.
\<close>

definition task_iteration ::
  "pios_ms5611_osr \<Rightarrow> ms5611_world \<times> 32 word \<times> int
     \<Rightarrow> (error + (ms5611_world \<times> 32 word \<times> int)) option" where
  "task_iteration K st =
     (case st of (w, count0, _) \<Rightarrow>
        (let temp_press_interleave_count = count0 - 1
         in (case (if temp_press_interleave_count = 0 then
                     (case conversion_cycle Thread_Sleep K TEMPERATURE_CONV w of
                        None \<Rightarrow> None
                      | Some (Inl e) \<Rightarrow> Some (Inl e)
                      | Some (Inr (_, w1)) \<Rightarrow>
                          (let c = temperature_interleaving (cfg (the (dev w1)))
                           in Some (Inr (w1, if c = 0 then 1 else c))))
                   else Some (Inr (w, temp_press_interleave_count))) of
               None \<Rightarrow> None
             | Some (Inl e) \<Rightarrow> Some (Inl e)
             | Some (Inr (w2, count1)) \<Rightarrow>
                 (case conversion_cycle Thread_Sleep K PRESSURE_CONV w2 of
                    None \<Rightarrow> None
                  | Some (Inl e) \<Rightarrow> Some (Inl e)
                  | Some (Inr (read_adc_result, w3)) \<Rightarrow>
                      (let w4 = (if read_adc_result = 0
                                 then emit (Queue_Send (temperature_unscaled (the (dev w3)))
                                              (pressure_unscaled (the (dev w3))) 0) w3
                                 else w3)
                       in Some (Inr (w4, count1, read_adc_result)))))))"

text \<open>The first \<open>n\<close> passes of the loop; the loop itself has no exit.\<close>

fun task_iterations ::
  "pios_ms5611_osr \<Rightarrow> nat \<Rightarrow> ms5611_world \<times> 32 word \<times> int
     \<Rightarrow> (error + (ms5611_world \<times> 32 word \<times> int)) option" where
  "task_iterations K 0 st = Some (Inr st)"
| "task_iterations K (Suc n) st =
     (case task_iteration K st of
        None \<Rightarrow> None
      | Some (Inl e) \<Rightarrow> Some (Inl e)
      | Some (Inr st') \<Rightarrow> task_iterations K n st')"

text \<open>
  \<open>PIOS_MS5611_Task\<close> observed after \<open>n\<close> passes: the counter starts at 1, the result
  variable at 0.
\<close>

definition PIOS_MS5611_Task ::
  "pios_ms5611_osr \<Rightarrow> nat \<Rightarrow> ms5611_world \<Rightarrow> (error + (ms5611_world \<times> 32 word \<times> int)) option" where
  "PIOS_MS5611_Task K n w = task_iterations K n (w, 1, 0)"


section \<open>WS2811 LED strip driver (pios\_ws2811.c)\<close>

subsection \<open>Data\<close>

record ws2811_pixel_data_s =
  px_r :: "8 word"
  px_g :: "8 word"
  px_b :: "8 word"

definition WS2811_DMA_BUFSIZE :: nat where
  "WS2811_DMA_BUFSIZE = 6 * 24 * 2"

definition WS2811_MAGIC :: "32 word" where
  "WS2811_MAGIC = 0x31313832"

text \<open>
  The calls \<open>ws2811_cue_dma\<close> makes into the DMA peripheral library, in program order.
  They are the only effect the driver has outside its own structure.
\<close>

datatype dma_stream = bit_set_dma_stream | bit_clear_dma_stream

datatype dma_mode = DMA_Mode_Normal | DMA_Mode_Circular

datatype dma_call =
    DMA_DeInit dma_stream
  | DMA_Init dma_stream dma_mode nat
  | DMA_DoubleBufferModeConfig dma_stream
  | DMA_DoubleBufferModeCmd dma_stream
  | DMA_Cmd dma_stream

text \<open>
  \<open>struct ws2811_dev_s\<close>.  The two pointers into the pixel storage are byte offsets from
  the start of \<open>pixel_data\<close>; the fields that only hold hardware addresses
  (\<open>cfg\<close>, \<open>gpio_bsrrh_address\<close>, \<open>gpio_bsrrl_address\<close>) are left out.  The field \<open>dma_calls\<close>
  is not part of the C structure: it records what has been programmed into the DMA
  hardware.
\<close>

record ws2811_dev_s =
  ws_magic :: "32 word"
  max_leds :: "16 word"
  lame_dma_buf :: "8 word list"
  dma_buf_0 :: "8 word list"
  dma_buf_1 :: "8 word list"
  gpio_bit :: "8 word"
  cur_buf :: bool
  eof :: bool
  in_progress :: bool
  pixel_data_pos :: nat
  pixel_data_end :: nat
  pixel_data :: "ws2811_pixel_data_s list"
  dma_calls :: "dma_call list"

text \<open>The pixel storage seen through a \<open>uint8_t *\<close>: three bytes per pixel, no padding.\<close>

definition pixel_bytes :: "ws2811_pixel_data_s list \<Rightarrow> 8 word list" where
  "pixel_bytes ps = concat (map (\<lambda>p. [px_r p, px_g p, px_b p]) ps)"

text \<open>
  The C types and \<open>PIOS_WS2811_init\<close> fix the sizes once and for all: both DMA buffers
  have \<open>WS2811_DMA_BUFSIZE\<close> bytes, the pixel storage has \<open>max_leds\<close> entries and
  \<open>pixel_data_end\<close> points just behind it.  Inside these sizes the list operations
  below are the C array accesses.
\<close>

subsection \<open>fill\_dma\_buf\<close>

text \<open>
  The inner loop \<open>for (j = 0; j < 8; j++)\<close> over the bits of one source byte \<open>p\<close>, most
  significant bit first, for the 16-byte slot that starts at \<open>i\<close>.
\<close>

definition fill_bits :: "8 word list \<Rightarrow> nat \<Rightarrow> 8 word \<Rightarrow> 8 word \<Rightarrow> 8 word list \<times> 8 word" where
  "fill_bits dma_buf i p gpio_val =
     fold (\<lambda>j (buf, p).
             ((if p AND 0x80 = 0 then buf[i + j * 2 := gpio_val]
               else buf[i + j * 2 := 0]),
              push_bit 1 p))
          [0..<8] (dma_buf, p)"

text \<open>
  The outer loop \<open>for (i = 0; i < WS2811_DMA_BUFSIZE; i += 16)\<close> with its \<open>break\<close>.
  \<open>mem\<close> is the memory \<open>p_d_p\<close> points into.
\<close>

function fill_loop ::
  "nat \<Rightarrow> 8 word list \<Rightarrow> 8 word list \<Rightarrow> nat \<Rightarrow> nat \<Rightarrow> 8 word \<Rightarrow> 8 word list \<times> nat" where
  "fill_loop i dma_buf mem p_d_p pixel_data_end' gpio_val =
     (if i < WS2811_DMA_BUFSIZE then
        (if p_d_p \<ge> pixel_data_end' then (dma_buf, p_d_p)
         else fill_loop (i + 16) (fst (fill_bits dma_buf i (mem ! p_d_p) gpio_val))
                mem (p_d_p + 1) pixel_data_end' gpio_val)
      else (dma_buf, p_d_p))"
  by pat_completeness auto
termination
  by (relation "measure (\<lambda>(i, _). WS2811_DMA_BUFSIZE - i)") auto

declare fill_loop.simps [simp del]

text \<open>
  Returns the buffer, the advanced \<open>*pixel_data_ptr\<close> and the function's result
  (true once the pixel source is exhausted).
\<close>

definition fill_dma_buf ::
  "8 word list \<Rightarrow> 8 word list \<Rightarrow> nat \<Rightarrow> nat \<Rightarrow> 8 word \<Rightarrow> 8 word list \<times> nat \<times> bool" where
  "fill_dma_buf dma_buf mem pixel_data_ptr pixel_data_end' gpio_val =
     (case fill_loop 0 dma_buf mem pixel_data_ptr pixel_data_end' gpio_val of
        (dma_buf', p_d_p) \<Rightarrow> (dma_buf', p_d_p, p_d_p \<ge> pixel_data_end'))"

subsection \<open>ws2811\_cue\_dma, PIOS\_WS2811\_trigger\_update\<close>

definition ws2811_cue_dma :: "ws2811_dev_s \<Rightarrow> ws2811_dev_s" where
  "ws2811_cue_dma d = d\<lparr>dma_calls := dma_calls d @
     [DMA_DeInit bit_set_dma_stream,
      DMA_DeInit bit_clear_dma_stream,
      DMA_Init bit_set_dma_stream DMA_Mode_Normal (unat (max_leds d)),
      DMA_Init bit_clear_dma_stream DMA_Mode_Circular WS2811_DMA_BUFSIZE,
      DMA_DoubleBufferModeConfig bit_clear_dma_stream,
      DMA_DoubleBufferModeCmd bit_clear_dma_stream,
      DMA_Cmd bit_set_dma_stream,
      DMA_Cmd bit_clear_dma_stream]\<rparr>"

definition PIOS_WS2811_trigger_update :: "ws2811_dev_s \<Rightarrow> ws2811_dev_s" where
  "PIOS_WS2811_trigger_update d =
     (if in_progress d then d
      else
        let d1 = d\<lparr>in_progress := True, eof := False, pixel_data_pos := 0, cur_buf := False\<rparr>;
            (buf0, pos0, _) = fill_dma_buf (dma_buf_0 d1) (pixel_bytes (pixel_data d1))
                                (pixel_data_pos d1) (pixel_data_end d1) (gpio_bit d1);
            d2 = d1\<lparr>dma_buf_0 := buf0, pixel_data_pos := pos0\<rparr>;
            (buf1, pos1, _) = fill_dma_buf (dma_buf_1 d2) (pixel_bytes (pixel_data d2))
                                (pixel_data_pos d2) (pixel_data_end d2) (gpio_bit d2);
            d3 = d2\<lparr>dma_buf_1 := buf1, pixel_data_pos := pos1\<rparr>
        in ws2811_cue_dma d3)"

subsection \<open>PIOS\_WS2811\_set, PIOS\_WS2811\_set\_all\<close>

text \<open>
  \<open>idx\<close> is a C \<open>int\<close>; \<open>max_leds\<close> is promoted to \<open>int\<close> for the comparison.  The
  assertion has no lower bound, so a negative \<open>idx\<close> passes it and the store lands in
  front of the pixel storage.
\<close>

definition PIOS_WS2811_set ::
  "ws2811_dev_s \<Rightarrow> int \<Rightarrow> 8 word \<Rightarrow> 8 word \<Rightarrow> 8 word \<Rightarrow> error + ws2811_dev_s" where
  "PIOS_WS2811_set d idx r g b =
     (if ws_magic d \<noteq> WS2811_MAGIC then Inl Assert_failed
      else if \<not> idx < uint (max_leds d) then Inl Assert_failed
      else if idx < 0 \<or> int (length (pixel_data d)) \<le> idx then Inl Undefined_behaviour
      else Inr (d\<lparr>pixel_data := (pixel_data d)[nat idx := \<lparr>px_r = r, px_g = g, px_b = b\<rparr>]\<rparr>))"

text \<open>The loop \<open>for (int i = 0; i < dev->max_leds; i++)\<close> of \<open>PIOS_WS2811_set_all\<close>.\<close>

function set_all_loop ::
  "int \<Rightarrow> ws2811_dev_s \<Rightarrow> 8 word \<Rightarrow> 8 word \<Rightarrow> 8 word \<Rightarrow> error + ws2811_dev_s" where
  "set_all_loop i d r g b =
     (if i < uint (max_leds d) then
        (case PIOS_WS2811_set d i r g b of
           Inl e \<Rightarrow> Inl e
         | Inr d' \<Rightarrow> set_all_loop (i + 1) d' r g b)
      else Inr d)"
  by pat_completeness auto
termination
  by (relation "measure (\<lambda>(i, d, _). nat (uint (max_leds d) - i))")
     (auto simp: PIOS_WS2811_set_def split: if_splits)

declare set_all_loop.simps [simp del]

definition PIOS_WS2811_set_all ::
  "ws2811_dev_s \<Rightarrow> 8 word \<Rightarrow> 8 word \<Rightarrow> 8 word \<Rightarrow> error + ws2811_dev_s" where
  "PIOS_WS2811_set_all d r g b =
     (if ws_magic d \<noteq> WS2811_MAGIC then Inl Assert_failed
      else set_all_loop 0 d r g b)"

subsection \<open>Reading a buffer back; sequences of calls\<close>

text \<open>
  The bit positions (0 for the most significant bit) of the 16-byte slot starting at \<open>i\<close>
  whose even byte holds the GPIO value, that is, whose pulse falls early.
\<close>

definition early_fall_bits :: "8 word list \<Rightarrow> nat \<Rightarrow> 8 word \<Rightarrow> nat list" where
  "early_fall_bits dma_buf i gpio_val = filter (\<lambda>j. dma_buf ! (i + j * 2) = gpio_val) [0..<8]"

text \<open>
  The functions of the file that work on an existing device, as calls a client can make
  one after the other.  A failed assertion ends the sequence.
\<close>

datatype ws2811_api_call =
    Call_set int "8 word" "8 word" "8 word"
  | Call_set_all "8 word" "8 word" "8 word"
  | Call_trigger_update

fun ws2811_call :: "ws2811_dev_s \<Rightarrow> ws2811_api_call \<Rightarrow> error + ws2811_dev_s" where
  "ws2811_call d (Call_set idx r g b) = PIOS_WS2811_set d idx r g b"
| "ws2811_call d (Call_set_all r g b) = PIOS_WS2811_set_all d r g b"
| "ws2811_call d Call_trigger_update = Inr (PIOS_WS2811_trigger_update d)"

fun ws2811_calls :: "ws2811_dev_s \<Rightarrow> ws2811_api_call list \<Rightarrow> error + ws2811_dev_s" where
  "ws2811_calls d [] = Inr d"
| "ws2811_calls d (c # cs) =
     (case ws2811_call d c of Inl e \<Rightarrow> Inl e | Inr d' \<Rightarrow> ws2811_calls d' cs)"

subsection \<open>Reading results and traces back\<close>

text \<open>The status and the world a call returned with, if it returned without a failed assertion.\<close>

definition returned_status :: "(error + (int \<times> ms5611_world)) option \<Rightarrow> int option" where
  "returned_status r = (case r of Some (Inr (rc, w)) \<Rightarrow> Some rc | _ \<Rightarrow> None)"

definition returned_world :: "(error + (int \<times> ms5611_world)) option \<Rightarrow> ms5611_world option" where
  "returned_world r = (case r of Some (Inr (rc, w)) \<Rightarrow> Some w | _ \<Rightarrow> None)"

text \<open>The trace after some passes of the task loop.\<close>

definition task_trace :: "(error + (ms5611_world \<times> 32 word \<times> int)) option \<Rightarrow> event list" where
  "task_trace r = (case r of Some (Inr (w, c, rc)) \<Rightarrow> trace w | _ \<Rightarrow> [])"

text \<open>The command bytes and the queue sends of a trace, in order.\<close>

fun commands :: "event list \<Rightarrow> 8 word list" where
  "commands [] = []"
| "commands (Command c # es) = c # commands es"
| "commands (e # es) = commands es"

fun queue_sends :: "event list \<Rightarrow> event list" where
  "queue_sends [] = []"
| "queue_sends (Queue_Send t p tmo # es) = Queue_Send t p tmo # queue_sends es"
| "queue_sends (e # es) = queue_sends es"

text \<open>Every request for the bus is granted sooner or later.\<close>

definition bus_granted_eventually :: "ms5611_world \<Rightarrow> bool" where
  "bus_granted_eventually w \<longleftrightarrow> (\<forall>n. \<exists>k. spi_claim_ok w (n + k))"

text \<open>
  The plausibility window of the self-test as the specification words it: temperature
  within \<open>[-4000, 8500]\<close> and pressure within \<open>[100, 12000]\<close>.
\<close>

definition spec_selftest_in_range :: "int \<Rightarrow> int \<Rightarrow> bool" where
  "spec_selftest_in_range t p \<longleftrightarrow> - 4000 \<le> t \<and> t \<le> 8500 \<and> 100 \<le> p \<and> p \<le> 12000"

text \<open>What a world keeps across the calls of the driver.\<close>

definition same_setup :: "ms5611_world \<Rightarrow> ms5611_world \<Rightarrow> bool" where
  "same_setup w w' \<longleftrightarrow>
     spi_claim_ok w' = spi_claim_ok w \<and> spi_block w' = spi_block w \<and>
     PIOS_MS5611_Validate (dev w') = 0 \<and>
     cfg (the (dev w')) = cfg (the (dev w)) \<and>
     calibration (the (dev w')) = calibration (the (dev w))"

text \<open>
  The conversions the counter of \<open>PIOS_MS5611_Task\<close> asks for in \<open>n\<close> passes, when a
  pass starts with the counter at \<open>count0\<close> and the configured interleaving is \<open>ti\<close>.
\<close>

fun interleave_schedule :: "32 word \<Rightarrow> 32 word \<Rightarrow> nat \<Rightarrow> conversion_type list" where
  "interleave_schedule count0 ti 0 = []"
| "interleave_schedule count0 ti (Suc n) =
     (if count0 - 1 = 0
      then TEMPERATURE_CONV # PRESSURE_CONV # interleave_schedule (if ti = 0 then 1 else ti) ti n
      else PRESSURE_CONV # interleave_schedule (count0 - 1) ti n)"

text \<open>The command byte that starts a conversion of the given kind.\<close>

definition conversion_command :: "ms5611_world \<Rightarrow> conversion_type \<Rightarrow> 8 word" where
  "conversion_command w type =
     word_of_int ((case type of TEMPERATURE_CONV \<Rightarrow> MS5611_TEMP_ADDR
                     | PRESSURE_CONV \<Rightarrow> MS5611_PRES_ADDR)
                  + oversampling (cfg (the (dev w))))"

subsection \<open>The fixed-point formulas of the specification\<close>

text \<open>
  The reference computation on unbounded integers, following the words of the
  specification: \<open>x >> n\<close> is \<open>x div 2 ^ n\<close>, which rounds towards minus infinity as
  the arithmetic shift does.  The specification names the third-order terms only as
  "further corrections using \<open>(temperature + 1500)\<^sup>2\<close>"; their factors 7 and 11/2 are
  those of the data sheet.
\<close>

definition adc_code :: "(nat \<Rightarrow> 8 word) \<Rightarrow> int" where
  "adc_code rx = uint (rx 0) * 2 ^ 16 + uint (rx 1) * 2 ^ 8 + uint (rx 2)"

definition spec_delta_temp :: "int \<Rightarrow> int \<Rightarrow> int" where
  "spec_delta_temp raw cal4 = raw - cal4 * 2 ^ 8"

definition spec_temperature_uncorrected :: "int \<Rightarrow> int \<Rightarrow> int" where
  "spec_temperature_uncorrected dT cal5 = 2000 + (dT * cal5) div 2 ^ 23"

definition spec_temperature :: "int \<Rightarrow> int \<Rightarrow> int" where
  "spec_temperature dT cal5 =
     (let t = spec_temperature_uncorrected dT cal5
      in if t < 2000 then t - dT\<^sup>2 div 2 ^ 31 else t)"

definition spec_pressure :: "int \<Rightarrow> int \<Rightarrow> int \<Rightarrow> int \<Rightarrow> int \<Rightarrow> int \<Rightarrow> int \<Rightarrow> int \<Rightarrow> int" where
  "spec_pressure cal0 cal1 cal2 cal3 dT t t_corrected raw =
     (let offset = cal1 * 2 ^ 16 + (cal3 * dT) div 2 ^ 7;
          sens = cal0 * 2 ^ 15 + (cal2 * dT) div 2 ^ 8;
          offset2 = (if t < 2000 then 5 * (t - 2000)\<^sup>2 div 2 ^ 1 else 0);
          sens2 = (if t < 2000 then 5 * (t - 2000)\<^sup>2 div 2 ^ 2 else 0);
          offset3 = (if t < 2000 \<and> t_corrected < - 1500 then 7 * (t + 1500)\<^sup>2 else 0);
          sens3 = (if t < 2000 \<and> t_corrected < - 1500 then 11 * (t + 1500)\<^sup>2 div 2 ^ 1 else 0)
      in ((raw * (sens - sens2 - sens3)) div 2 ^ 21 - (offset - offset2 - offset3)) div 2 ^ 15)"

text \<open>
  The state a temperature conversion of the raw code \<open>raw\<close> leaves behind: the two
  statics and \<open>temperature_unscaled\<close> hold the values of the formulas.
\<close>

definition after_temperature_pass :: "ms5611_world \<Rightarrow> int \<Rightarrow> bool" where
  "after_temperature_pass w raw \<longleftrightarrow>
     sint (delta_temp w) = spec_delta_temp raw (uint (calibration (the (dev w)) ! 4)) \<and>
     sint (temperature w) =
       spec_temperature_uncorrected (sint (delta_temp w)) (uint (calibration (the (dev w)) ! 5)) \<and>
     sint (temperature_unscaled (the (dev w))) =
       spec_temperature (sint (delta_temp w)) (uint (calibration (the (dev w)) ! 5))"

text \<open>A 64-bit word that holds the integer \<open>v\<close>, of magnitude at most \<open>B\<close>.\<close>

definition holds :: "64 word \<Rightarrow> int \<Rightarrow> int \<Rightarrow> bool" where
  "holds a v B \<longleftrightarrow> sint a = v \<and> - B \<le> v \<and> v \<le> B"

section \<open>Concrete states\<close>

text \<open>
  A strip of two pixels on GPIO bit 0, as \<open>PIOS_WS2811_init\<close> leaves it (every even
  byte of both buffers 0, every odd byte the GPIO bit) but for the first pixel, whose
  red byte is \<open>0b10110000\<close>.
\<close>

definition prefilled_buf :: "8 word \<Rightarrow> 8 word list" where
  "prefilled_buf gpio_val = concat (replicate 144 [0, gpio_val])"

definition ws_example :: ws2811_dev_s where
  "ws_example =
     \<lparr>ws_magic = WS2811_MAGIC, max_leds = 2, lame_dma_buf = [1],
      dma_buf_0 = prefilled_buf 1, dma_buf_1 = prefilled_buf 1, gpio_bit = 1,
      cur_buf = False, eof = False, in_progress = False,
      pixel_data_pos = 0, pixel_data_end = 6,
      pixel_data = [\<lparr>px_r = 0xB0, px_g = 0, px_b = 0\<rparr>, \<lparr>px_r = 0, px_g = 0, px_b = 0\<rparr>],
      dma_calls = []\<rparr>"

text \<open>
  A barometer with the calibration words and the two raw readings of the worked
  example in the MS5611 data sheet (\<open>D2 = 8569150\<close>, \<open>D1 = 9085466\<close>, giving 20.07
  degrees and 1000.09 mbar), oversampling 4096, one temperature reading every third
  pressure reading.  The bus refuses every third request, starting with the very
  first; the block transfers deliver \<open>D2\<close> and \<open>D1\<close> in turn, and all but the third
  of them succeed.
\<close>

definition osr_example :: pios_ms5611_osr where
  "osr_example =
     \<lparr>MS5611_OSR_256 = 0, MS5611_OSR_512 = 2, MS5611_OSR_1024 = 4,
      MS5611_OSR_2048 = 6, MS5611_OSR_4096 = 8\<rparr>"

definition dev_example :: ms5611_dev where
  "dev_example =
     \<lparr>cfg = \<lparr>oversampling = 8, temperature_interleaving = 3\<rparr>,
      spi_id = 1, slave_num = 0, pressure_unscaled = 0, temperature_unscaled = 0,
      calibration = [40127, 36924, 23317, 23282, 33464, 28312],
      current_conversion_type = PRESSURE_CONV, magic = PIOS_MS5611_DEV_MAGIC\<rparr>"

definition rx_D2 :: "nat \<Rightarrow> 8 word" where
  "rx_D2 i = [0x82, 0xC1, 0x3E] ! i"

definition rx_D1 :: "nat \<Rightarrow> 8 word" where
  "rx_D1 i = [0x8A, 0xA2, 0x1A] ! i"

definition world_example :: ms5611_world where
  "world_example =
     \<lparr>dev = Some dev_example, delta_temp = 0, temperature = 0,
      spi_claim_ok = (\<lambda>k. k mod 3 \<noteq> 0), spi_claims = 0,
      spi_block = (\<lambda>k. (k \<noteq> 2, if k mod 2 = 0 then rx_D2 else rx_D1)), spi_blocks = 0,
      trace = []\<rparr>"

text \<open>
  The same barometer with a temperature conversion in flight and the bus about to be
  granted, and the state its result leaves, with a pressure conversion in flight.
\<close>

definition world_temperature_example :: ms5611_world where
  "world_temperature_example =
     update_dev (\<lambda>d. d\<lparr>current_conversion_type := TEMPERATURE_CONV\<rparr>)
       (world_example\<lparr>spi_claims := 1\<rparr>)"

definition world_pressure_example :: ms5611_world where
  "world_pressure_example =
     update_dev (\<lambda>d. d\<lparr>current_conversion_type := PRESSURE_CONV\<rparr>)
       (snd (PIOS_MS5611_ReadADC world_temperature_example))"

text \<open>
  The state before \<open>PIOS_MS5611_SPI_Init\<close>, with a bus that is granted to the first
  request only, and an environment in which every allocation succeeds.
\<close>

definition world_boot :: ms5611_world where
  "world_boot =
     \<lparr>dev = None, delta_temp = 0, temperature = 0,
      spi_claim_ok = (\<lambda>k. k = 0), spi_claims = 0,
      spi_block = (\<lambda>k. (True, rx_D2)), spi_blocks = 0,
      trace = []\<rparr>"

definition alloc_fine :: alloc_env where
  "alloc_fine = \<lparr>malloc_ok = True, queue_ok = True, semaphore_ok = True, thread_ok = True\<rparr>"

section \<open>Properties of the WS2811 driver\<close>

subsection \<open>fill\_dma\_buf\<close>

lemma upt_0_8: "[0..<8] = [0, Suc 0, 2, 3, 4, 5, 6, 7]"
  by code_simp

lemma fill_bits_below: "k < i \<Longrightarrow> fst (fill_bits buf i p g) ! k = buf ! k"
  by (simp add: fill_bits_def upt_0_8)

lemma fill_loop_below:
  "k < i \<Longrightarrow> fst (fill_loop i buf mem p e g) ! k = buf ! k"
proof (induction i buf mem p e g rule: fill_loop.induct)
  case (1 i dma_buf mem p_d_p e g)
  show ?case
  proof (cases "i < WS2811_DMA_BUFSIZE \<and> \<not> e \<le> p_d_p")
    case True
    then have "fst (fill_loop i dma_buf mem p_d_p e g) ! k =
               fst (fill_bits dma_buf i (mem ! p_d_p) g) ! k"
      using "1.IH" "1.prems" by (subst fill_loop.simps) simp
    then show ?thesis using "1.prems" by (simp add: fill_bits_below)
  next
    case False
    then show ?thesis by (subst fill_loop.simps) auto
  qed
qed

lemma fill_loop_first_slot:
  assumes "p < e"
  shows "fill_loop 0 buf mem p e g = fill_loop 16 (fst (fill_bits buf 0 (mem ! p) g)) mem (p + 1) e g"
  using assms by (subst fill_loop.simps) (simp add: WS2811_DMA_BUFSIZE_def)

lemma fill_bits_B0:
  "fst (fill_bits buf 0 0xB0 g) =
     buf[0 := 0, 2 := g, 4 := 0, 6 := 0, 8 := g, 10 := g, 12 := g, 14 := g]"
  by (simp add: fill_bits_def upt_0_8) (simp add: numeral_2_eq_2)

lemma fill_dma_buf_first_slot:
  assumes "p < e" and "k < 16"
  shows "fst (fill_dma_buf buf mem p e g) ! k = fst (fill_bits buf 0 (mem ! p) g) ! k"
proof -
  have "fst (fill_dma_buf buf mem p e g) = fst (fill_loop 0 buf mem p e g)"
    by (simp add: fill_dma_buf_def split: prod.splits)
  also have "\<dots> = fst (fill_loop 16 (fst (fill_bits buf 0 (mem ! p) g)) mem (p + 1) e g)"
    using assms(1) by (simp only: fill_loop_first_slot)
  finally show ?thesis using assms(2) by (simp add: fill_loop_below)
qed

text \<open>
  C2 (as amended).  Encoding the byte \<open>0b10110000\<close> into the first slot of a timing
  buffer writes the early-fall value at the even offsets of bit positions 1, 4, 5, 6
  and 7 (the zero bits, counted from the most significant bit) and 0 at the even
  offsets of positions 0, 2 and 3; the odd offsets keep what they held.
\<close>

theorem fill_dma_buf_0xB0:
  assumes "length dma_buf = WS2811_DMA_BUFSIZE"
    and "pixel_data_ptr < pixel_data_end'"
    and "mem ! pixel_data_ptr = 0xB0"
    and "gpio_val \<noteq> 0"
  shows "early_fall_bits (fst (fill_dma_buf dma_buf mem pixel_data_ptr pixel_data_end' gpio_val)) 0 gpio_val
           = [1, 4, 5, 6, 7]
       \<and> map (\<lambda>j. fst (fill_dma_buf dma_buf mem pixel_data_ptr pixel_data_end' gpio_val) ! (j * 2))
           [0..<8] = [0, gpio_val, 0, 0, gpio_val, gpio_val, gpio_val, gpio_val]
       \<and> map (\<lambda>j. fst (fill_dma_buf dma_buf mem pixel_data_ptr pixel_data_end' gpio_val) ! (j * 2 + 1))
           [0..<8] = map (\<lambda>j. dma_buf ! (j * 2 + 1)) [0..<8]"
proof -
  let ?buf = "fst (fill_dma_buf dma_buf mem pixel_data_ptr pixel_data_end' gpio_val)"
  let ?slot = "dma_buf[0 := 0, 2 := gpio_val, 4 := 0, 6 := 0, 8 := gpio_val, 10 := gpio_val,
                       12 := gpio_val, 14 := gpio_val]"
  have slot: "?buf ! k = ?slot ! k" if "k < 16" for k
    using fill_dma_buf_first_slot [OF assms(2) that, of dma_buf mem gpio_val]
    by (simp only: assms(3) fill_bits_B0)
  have len: "16 \<le> length dma_buf" "dma_buf \<noteq> []"
    using assms(1) by (auto simp: WS2811_DMA_BUFSIZE_def)
  have even: "map (\<lambda>j. ?buf ! (j * 2)) [0..<8]
                = [0, gpio_val, 0, 0, gpio_val, gpio_val, gpio_val, gpio_val]"
    using len by (simp add: upt_0_8 slot)
  have odd: "map (\<lambda>j. ?buf ! (j * 2 + 1)) [0..<8] = map (\<lambda>j. dma_buf ! (j * 2 + 1)) [0..<8]"
    using len by (simp add: upt_0_8 slot)
  have "early_fall_bits ?buf 0 gpio_val = [1, 4, 5, 6, 7]"
    using len assms(4)
    by (simp add: early_fall_bits_def upt_0_8 slot)
  with even odd show ?thesis by simp
qed

theorem fill_dma_buf_0xB0_witness:
  "early_fall_bits (fst (fill_dma_buf (prefilled_buf 1) [0xB0, 0, 0] 0 3 1)) 0 1 = [1, 4, 5, 6, 7]"
proof -
  have "length (prefilled_buf 1) = WS2811_DMA_BUFSIZE"
    by (simp add: prefilled_buf_def WS2811_DMA_BUFSIZE_def length_concat sum_list_replicate)
  moreover have "(0 :: nat) < 3" "[0xB0, 0, 0 :: 8 word] ! 0 = 0xB0" "(1 :: 8 word) \<noteq> 0"
    by simp_all
  ultimately show ?thesis
    using fill_dma_buf_0xB0 [of "prefilled_buf 1" 0 3 "[0xB0, 0, 0]" 1] by blast
qed

text \<open>
  The claim as it was stated puts the markers at bit positions 1, 3 and 4.  In the
  buffer of the strip above they are elsewhere.
\<close>

theorem fill_dma_buf_0xB0_counterexample:
  "early_fall_bits
     (fst (fill_dma_buf (dma_buf_0 ws_example) (pixel_bytes (pixel_data ws_example)) 0
             (pixel_data_end ws_example) (gpio_bit ws_example)))
     0 (gpio_bit ws_example) \<noteq> [1, 3, 4]"
  by code_simp

subsection \<open>PIOS\_WS2811\_trigger\_update\<close>

text \<open>
  C7.  \<open>PIOS_WS2811_trigger_update\<close> called while \<open>in_progress\<close> is set returns at once
  and leaves the whole device as it was: neither DMA buffer, nor \<open>pixel_data_pos\<close>,
  \<open>eof\<close>, \<open>cur_buf\<close>, \<open>in_progress\<close>, the pixel data or the DMA hardware changes.
\<close>

theorem trigger_update_in_progress_noop:
  "in_progress d \<Longrightarrow> PIOS_WS2811_trigger_update d = d"
  by (simp add: PIOS_WS2811_trigger_update_def)

theorem trigger_update_in_progress_noop_witness:
  "in_progress (ws_example\<lparr>in_progress := True\<rparr>) \<and>
   PIOS_WS2811_trigger_update (ws_example\<lparr>in_progress := True\<rparr>) = ws_example\<lparr>in_progress := True\<rparr>"
  using trigger_update_in_progress_noop [of "ws_example\<lparr>in_progress := True\<rparr>"] by simp

lemma in_progress_trigger_update: "in_progress (PIOS_WS2811_trigger_update d)"
  by (simp add: PIOS_WS2811_trigger_update_def ws2811_cue_dma_def Let_def split: prod.splits)

subsection \<open>PIOS\_WS2811\_set and PIOS\_WS2811\_set\_all\<close>

lemma set_in_range:
  assumes "ws_magic d = WS2811_MAGIC" and "length (pixel_data d) = unat (max_leds d)"
    and "0 \<le> idx" and "idx < uint (max_leds d)"
  shows "PIOS_WS2811_set d idx r g b =
           Inr (d\<lparr>pixel_data := (pixel_data d)[nat idx := \<lparr>px_r = r, px_g = g, px_b = b\<rparr>]\<rparr>)"
  using assms by (simp add: PIOS_WS2811_set_def)

lemma set_beyond_end:
  "uint (max_leds d) \<le> idx \<Longrightarrow> PIOS_WS2811_set d idx r g b = Inl Assert_failed"
  by (simp add: PIOS_WS2811_set_def)

lemma set_in_progress:
  "PIOS_WS2811_set d idx r g b = Inr d' \<Longrightarrow> in_progress d' = in_progress d"
  by (auto simp: PIOS_WS2811_set_def split: if_splits)

lemma set_all_loop_in_progress:
  "set_all_loop i d r g b = Inr d' \<Longrightarrow> in_progress d' = in_progress d"
proof (induction i d r g b rule: set_all_loop.induct)
  case (1 i d r g b)
  show ?case
  proof (cases "i < uint (max_leds d)")
    case True
    then obtain d1 where d1: "PIOS_WS2811_set d i r g b = Inr d1"
      and rest: "set_all_loop (i + 1) d1 r g b = Inr d'"
      using "1.prems" by (subst (asm) set_all_loop.simps) (auto split: sum.splits)
    from "1.IH" [OF True d1 rest] set_in_progress [OF d1] show ?thesis by simp
  next
    case False
    then show ?thesis using "1.prems" by (subst (asm) set_all_loop.simps) simp
  qed
qed

lemma ws2811_call_in_progress:
  assumes "in_progress d" and "ws2811_call d c = Inr d'"
  shows "in_progress d'"
proof (cases c)
  case (Call_set idx r g b)
  then show ?thesis using assms set_in_progress [of d idx r g b d'] by simp
next
  case (Call_set_all r g b)
  then show ?thesis
    using assms set_all_loop_in_progress [of 0 d r g b d']
    by (simp add: PIOS_WS2811_set_all_def split: if_splits)
next
  case Call_trigger_update
  then show ?thesis using assms by (auto simp: PIOS_WS2811_trigger_update_def)
qed

lemma ws2811_calls_in_progress:
  "in_progress d \<Longrightarrow> ws2811_calls d cs = Inr d' \<Longrightarrow> in_progress d'"
proof (induction cs arbitrary: d)
  case Nil
  then show ?case by simp
next
  case (Cons c cs)
  then obtain d1 where d1: "ws2811_call d c = Inr d1" and rest: "ws2811_calls d1 cs = Inr d'"
    by (auto split: sum.splits)
  from Cons.IH [OF ws2811_call_in_progress [OF Cons.prems(1) d1] rest] show ?case .
qed

text \<open>
  No statement of the file assigns false to \<open>in_progress\<close>.  So after a first
  \<open>PIOS_WS2811_trigger_update\<close>, every sequence of \<open>PIOS_WS2811_set\<close>,
  \<open>PIOS_WS2811_set_all\<close> and \<open>PIOS_WS2811_trigger_update\<close> calls that fails no assertion
  and stores only inside the pixel storage ends in a state with \<open>in_progress\<close> set, where
  a further \<open>PIOS_WS2811_trigger_update\<close> changes nothing.
\<close>

lemma in_progress_kept_inside_pixel_storage:
  assumes "ws2811_calls (PIOS_WS2811_trigger_update d0) cs = Inr d"
  shows "in_progress d \<and> PIOS_WS2811_trigger_update d = d"
proof -
  have "in_progress d"
    using ws2811_calls_in_progress [OF in_progress_trigger_update assms] .
  then show ?thesis by (simp add: PIOS_WS2811_trigger_update_def)
qed

lemma in_progress_kept_example:
  "\<not> in_progress ws_example \<and>
   ws2811_calls ws_example
     [Call_trigger_update, Call_set 1 9 8 7, Call_set_all 1 2 3, Call_trigger_update]
     = Inr ((PIOS_WS2811_trigger_update ws_example)
              \<lparr>pixel_data := [\<lparr>px_r = 1, px_g = 2, px_b = 3\<rparr>, \<lparr>px_r = 1, px_g = 2, px_b = 3\<rparr>]\<rparr>)"
  by code_simp

text \<open>
  C9.  The assertion of \<open>PIOS_WS2811_set\<close> compares a signed \<open>idx\<close> with \<open>max_leds\<close>
  and has no lower bound.  An index at or beyond \<open>max_leds\<close> fails the assertion, and
  an index from 0 up to \<open>max_leds - 1\<close> stores the triple (lemmas \<open>set_beyond_end\<close>
  and \<open>set_in_range\<close>); but \<open>idx = -1\<close> is below \<open>max_leds\<close> too, passes the
  assertion and stores in front of the pixel storage.
\<close>

theorem set_negative_index:
  "PIOS_WS2811_set ws_example (- 1) 255 0 0 = Inl Undefined_behaviour"
  by (simp add: PIOS_WS2811_set_def ws_example_def)

text \<open>
  C10.  The claim is that nothing clears \<open>in_progress\<close> once
  \<open>PIOS_WS2811_trigger_update\<close> has set it, so that every later
  \<open>PIOS_WS2811_trigger_update\<close> is a no-op.  That holds for every sequence of calls
  that stores inside the pixel storage (lemma \<open>in_progress_kept_inside_pixel_storage\<close>),
  but the missing lower bound of the assertion in \<open>PIOS_WS2811_set\<close> lets a store
  escape it.  In \<open>struct ws2811_dev_s\<close> on the 32-bit target the two pointers
  \<open>pixel_data_pos\<close> and \<open>pixel_data_end\<close> take the 8 bytes in front of \<open>pixel_data\<close> and
  \<open>in_progress\<close> is the byte in front of them, so \<open>in_progress\<close> is the byte
  \<open>pixel_data[-3].r\<close>.  On the example strip the first update sets \<open>in_progress\<close>;
  the call with \<open>idx = -3\<close> and \<open>r = 0\<close> made then passes the assertion and its store
  leaves the pixel storage: it writes 0 over \<open>in_progress\<close>.
\<close>

theorem set_minus_3_after_trigger_update:
  "\<not> in_progress ws_example \<and>
   in_progress (PIOS_WS2811_trigger_update ws_example) \<and>
   PIOS_WS2811_set (PIOS_WS2811_trigger_update ws_example) (- 3) 0 0 0
     = Inl Undefined_behaviour"
  by (simp add: in_progress_trigger_update PIOS_WS2811_set_def)
     (simp add: PIOS_WS2811_trigger_update_def ws2811_cue_dma_def ws_example_def Let_def
        split: prod.splits)

section \<open>Properties of the MS5611 driver\<close>

subsection \<open>Bus access\<close>

lemma Validate_0_Some: "PIOS_MS5611_Validate p = 0 \<Longrightarrow> \<exists>d. p = Some d"
  by (cases p) (simp_all add: PIOS_MS5611_Validate_def)

lemma Validate_emit [simp]: "dev (emit e w) = dev w"
  by (simp add: emit_def)

lemma WriteCommand_valid:
  assumes "PIOS_MS5611_Validate (dev w) = 0"
  shows "PIOS_MS5611_WriteCommand w c =
           (if spi_claim_ok w (spi_claims w)
            then (0, emit (Command c) (w\<lparr>spi_claims := spi_claims w + 1\<rparr>))
            else (- 2, w\<lparr>spi_claims := spi_claims w + 1\<rparr>))"
  using assms
  by (simp add: PIOS_MS5611_WriteCommand_def PIOS_MS5611_ClaimBus_def
        PIOS_MS5611_ReleaseBus_def)

text \<open>
  The retry loop returns as soon as a request for the bus is granted: after \<open>k\<close>
  refusals the command has been written once and \<open>k + 1\<close> requests have been made.
\<close>

lemma write_until_accepted_granted:
  assumes "PIOS_MS5611_Validate (dev w) = 0"
    and "spi_claim_ok w (spi_claims w + k)"
    and "\<forall>j<k. \<not> spi_claim_ok w (spi_claims w + j)"
  shows "write_until_accepted w c =
           Some (emit (Command c) (w\<lparr>spi_claims := spi_claims w + k + 1\<rparr>))"
  using assms
proof (induction k arbitrary: w)
  case 0
  then show ?case
    by (subst write_until_accepted.simps) (simp add: WriteCommand_valid)
next
  case (Suc k)
  let ?w1 = "w\<lparr>spi_claims := spi_claims w + 1\<rparr>"
  from Suc.prems(3) have refused: "\<not> spi_claim_ok w (spi_claims w)"
    by (metis add.right_neutral zero_less_Suc)
  have step: "write_until_accepted w c = write_until_accepted ?w1 c"
    using Suc.prems(1) refused
    by (subst write_until_accepted.simps) (simp add: WriteCommand_valid)
  have "\<forall>j<k. \<not> spi_claim_ok ?w1 (spi_claims ?w1 + j)"
  proof (intro allI impI)
    fix j assume "j < k"
    then have "\<not> spi_claim_ok w (spi_claims w + Suc j)"
      using Suc.prems(3) by (meson Suc_mono)
    then show "\<not> spi_claim_ok ?w1 (spi_claims ?w1 + j)" by simp
  qed
  moreover have "PIOS_MS5611_Validate (dev ?w1) = 0" "spi_claim_ok ?w1 (spi_claims ?w1 + k)"
    using Suc.prems(1,2) by simp_all
  ultimately have "write_until_accepted ?w1 c =
      Some (emit (Command c) (?w1\<lparr>spi_claims := spi_claims ?w1 + k + 1\<rparr>))"
    by (rule Suc.IH [rotated 2])
  with step show ?case by simp
qed

text \<open>If the loop returns, some request was granted.\<close>

lemma write_until_accepted_Some:
  assumes "write_until_accepted w c = Some w'" and "PIOS_MS5611_Validate (dev w) = 0"
  shows "\<exists>k. spi_claim_ok w (spi_claims w + k)"
  using assms
proof (induction rule: write_until_accepted.raw_induct [rotated 1, consumes 1])
  case (1 loop w c w')
  show ?case
  proof (cases "spi_claim_ok w (spi_claims w)")
    case True
    then show ?thesis by (metis add.right_neutral)
  next
    case False
    let ?w1 = "w\<lparr>spi_claims := spi_claims w + 1\<rparr>"
    from 1(2) False 1(3) have "loop ?w1 c = Some w'"
      by (simp add: WriteCommand_valid)
    from 1(1) [OF this] 1(3) obtain k where "spi_claim_ok ?w1 (spi_claims ?w1 + k)"
      by auto
    then have "spi_claim_ok w (spi_claims w + Suc k)" by simp
    then show ?thesis by blast
  qed
qed

lemma first_grant:
  assumes "\<exists>k. spi_claim_ok w (n + k)"
  obtains k where "spi_claim_ok w (n + k)" and "\<forall>j<k. \<not> spi_claim_ok w (n + j)"
proof -
  let ?k = "LEAST k. spi_claim_ok w (n + k)"
  have "spi_claim_ok w (n + ?k)" using assms by (rule LeastI_ex)
  moreover have "\<forall>j<?k. \<not> spi_claim_ok w (n + j)" using not_less_Least by blast
  ultimately show thesis using that by blast
qed

subsection \<open>PIOS\_MS5611\_StartADC\<close>

lemma StartADC_valid:
  assumes "PIOS_MS5611_Validate (dev w) = 0"
  shows "PIOS_MS5611_StartADC w type =
           map_option (\<lambda>w'. (0, update_dev (\<lambda>d. d\<lparr>current_conversion_type := type\<rparr>) w'))
             (write_until_accepted w
                (word_of_int ((case type of TEMPERATURE_CONV \<Rightarrow> MS5611_TEMP_ADDR
                                 | PRESSURE_CONV \<Rightarrow> MS5611_PRES_ADDR)
                              + oversampling (cfg (the (dev w))))))"
  using assms
  by (cases type) (simp_all add: PIOS_MS5611_StartADC_def split: option.splits)

text \<open>
  C8.  On a valid device \<open>PIOS_MS5611_StartADC\<close> hands no bus failure to its caller.
  It returns exactly when some request for the bus is eventually granted, and does
  not return otherwise.  When it returns, the status is 0, the requested kind is the
  current conversion type, and the command byte (base address plus oversampling) has
  been written once, after every earlier request had been refused.
\<close>

theorem StartADC_blocks_until_accepted:
  assumes "PIOS_MS5611_Validate (dev w) = 0"
  shows "(PIOS_MS5611_StartADC w type = None \<longleftrightarrow> (\<forall>k. \<not> spi_claim_ok w (spi_claims w + k)))
       \<and> (\<forall>rc w'. PIOS_MS5611_StartADC w type = Some (rc, w') \<longrightarrow>
            rc = 0
          \<and> map_option current_conversion_type (dev w') = Some type
          \<and> trace w' = trace w @
              [Command (word_of_int ((case type of TEMPERATURE_CONV \<Rightarrow> MS5611_TEMP_ADDR
                                        | PRESSURE_CONV \<Rightarrow> MS5611_PRES_ADDR)
                                     + oversampling (cfg (the (dev w)))))]
          \<and> spi_claim_ok w (spi_claims w' - 1)
          \<and> (\<forall>n. spi_claims w \<le> n \<and> n < spi_claims w' - 1 \<longrightarrow> \<not> spi_claim_ok w n))"
proof -
  let ?c = "word_of_int ((case type of TEMPERATURE_CONV \<Rightarrow> MS5611_TEMP_ADDR
                            | PRESSURE_CONV \<Rightarrow> MS5611_PRES_ADDR)
                         + oversampling (cfg (the (dev w)))) :: 8 word"
  obtain d where d: "dev w = Some d"
    using Validate_0_Some [OF assms] by blast
  have none: "PIOS_MS5611_StartADC w type = None \<longleftrightarrow> (\<forall>k. \<not> spi_claim_ok w (spi_claims w + k))"
  proof
    assume "PIOS_MS5611_StartADC w type = None"
    then have stuck: "write_until_accepted w ?c = None"
      by (simp add: StartADC_valid [OF assms])
    show "\<forall>k. \<not> spi_claim_ok w (spi_claims w + k)"
    proof (rule ccontr)
      assume "\<not> (\<forall>k. \<not> spi_claim_ok w (spi_claims w + k))"
      then have "\<exists>k. spi_claim_ok w (spi_claims w + k)" by blast
      then obtain k where "spi_claim_ok w (spi_claims w + k)"
        and "\<forall>j<k. \<not> spi_claim_ok w (spi_claims w + j)"
        by (rule first_grant)
      from write_until_accepted_granted [OF assms this] stuck show False by simp
    qed
  next
    assume never: "\<forall>k. \<not> spi_claim_ok w (spi_claims w + k)"
    have "write_until_accepted w ?c = None"
    proof (cases "write_until_accepted w ?c")
      case (Some w')
      from write_until_accepted_Some [OF this assms] never show ?thesis by blast
    qed simp
    then show "PIOS_MS5611_StartADC w type = None"
      by (simp add: StartADC_valid [OF assms])
  qed
  have some: "rc = 0
          \<and> map_option current_conversion_type (dev w') = Some type
          \<and> trace w' = trace w @ [Command ?c]
          \<and> spi_claim_ok w (spi_claims w' - 1)
          \<and> (\<forall>n. spi_claims w \<le> n \<and> n < spi_claims w' - 1 \<longrightarrow> \<not> spi_claim_ok w n)"
    if ret: "PIOS_MS5611_StartADC w type = Some (rc, w')" for rc w'
  proof -
    from ret obtain w1 where w1: "write_until_accepted w ?c = Some w1"
      and res: "rc = 0" "w' = update_dev (\<lambda>d. d\<lparr>current_conversion_type := type\<rparr>) w1"
      by (auto simp: StartADC_valid [OF assms])
    from write_until_accepted_Some [OF w1 assms]
    obtain k where k: "spi_claim_ok w (spi_claims w + k)"
      "\<forall>j<k. \<not> spi_claim_ok w (spi_claims w + j)"
      by (rule first_grant)
    from write_until_accepted_granted [OF assms k] w1
    have w1_eq: "w1 = emit (Command ?c) (w\<lparr>spi_claims := spi_claims w + k + 1\<rparr>)"
      by simp
    have "\<not> spi_claim_ok w n" if "spi_claims w \<le> n" "n < spi_claims w + k" for n
    proof -
      from that obtain j where "n = spi_claims w + j" "j < k"
        by (metis le_Suc_ex nat_add_left_cancel_less)
      with k(2) show ?thesis by blast
    qed
    with k(1) show ?thesis
      by (simp add: res w1_eq update_dev_def emit_def d)
  qed
  from none some show ?thesis by blast
qed

theorem StartADC_blocks_until_accepted_witness:
  "PIOS_MS5611_Validate (dev world_example) = 0 \<and>
   map_option fst (PIOS_MS5611_StartADC world_example TEMPERATURE_CONV) = Some 0"
proof -
  have valid: "PIOS_MS5611_Validate (dev world_example) = 0"
    by code_simp
  have granted: "spi_claim_ok world_example (spi_claims world_example + 1)"
    by code_simp
  note blocks = StartADC_blocks_until_accepted [OF valid, of TEMPERATURE_CONV]
  from blocks granted have "PIOS_MS5611_StartADC world_example TEMPERATURE_CONV \<noteq> None"
    by blast
  then obtain rc w' where ret: "PIOS_MS5611_StartADC world_example TEMPERATURE_CONV = Some (rc, w')"
    by (cases "PIOS_MS5611_StartADC world_example TEMPERATURE_CONV") auto
  with blocks have "rc = 0" by blast
  with ret valid show ?thesis by simp
qed

subsection \<open>PIOS\_MS5611\_Read and the frame of PIOS\_MS5611\_ReadADC\<close>

lemma Read_valid:
  assumes "PIOS_MS5611_Validate (dev w) = 0"
  shows "PIOS_MS5611_Read w a buf len =
           (if spi_claim_ok w (spi_claims w)
            then (if fst (spi_block w (spi_blocks w)) then 0 else - 3,
                  map (snd (spi_block w (spi_blocks w))) [0..<len] @ drop len buf,
                  emit (ReadOut a len) (w\<lparr>spi_claims := spi_claims w + 1, spi_blocks := spi_blocks w + 1\<rparr>))
            else (- 2, buf, w\<lparr>spi_claims := spi_claims w + 1\<rparr>))"
  using assms
  by (simp add: PIOS_MS5611_Read_def PIOS_MS5611_ClaimBus_def PIOS_MS5611_ReleaseBus_def
        Let_def split: prod.splits)

lemma same_setup_trans: "same_setup w w1 \<Longrightarrow> same_setup w1 w2 \<Longrightarrow> same_setup w w2"
  by (simp add: same_setup_def)

lemma ReadADC_frame:
  assumes valid: "PIOS_MS5611_Validate (dev w) = 0"
    and ret: "PIOS_MS5611_ReadADC w = (rc, w')"
  shows "same_setup w w'"
    and "rc = 0 \<or> rc = - 1"
    and "rc = 0 \<longleftrightarrow> spi_claim_ok w (spi_claims w) \<and> fst (spi_block w (spi_blocks w))"
    and "spi_claims w' = spi_claims w + 1"
    and "spi_blocks w' = (if spi_claim_ok w (spi_claims w) then spi_blocks w + 1 else spi_blocks w)"
    and "commands (trace w') = commands (trace w)"
    and "queue_sends (trace w') = queue_sends (trace w)"
proof -
  obtain d where d: "dev w = Some d"
    using Validate_0_Some [OF valid] by blast
  have cmds: "commands (es @ [ReadOut a n]) = commands es" for es a n
    by (induction es rule: commands.induct) simp_all
  have sends: "queue_sends (es @ [ReadOut a n]) = queue_sends es" for es a n
    by (induction es rule: queue_sends.induct) simp_all
  have v: "magic d = PIOS_MS5611_DEV_MAGIC" "spi_id d \<noteq> 0"
    using valid d by (auto simp: PIOS_MS5611_Validate_def split: if_splits)
  note defs = PIOS_MS5611_ReadADC_def Read_valid [OF valid] d emit_def update_dev_def
    same_setup_def PIOS_MS5611_Validate_def Let_def
  show "same_setup w w'"
    using ret valid v by (auto simp: defs split: if_splits prod.splits)
  show "rc = 0 \<or> rc = - 1"
    using ret valid by (auto simp: defs split: if_splits prod.splits)
  show "rc = 0 \<longleftrightarrow> spi_claim_ok w (spi_claims w) \<and> fst (spi_block w (spi_blocks w))"
    using ret valid by (auto simp: defs split: if_splits prod.splits)
  show "spi_claims w' = spi_claims w + 1"
    using ret valid by (auto simp: defs split: if_splits prod.splits)
  show "spi_blocks w' = (if spi_claim_ok w (spi_claims w) then spi_blocks w + 1 else spi_blocks w)"
    using ret valid by (auto simp: defs split: if_splits prod.splits)
  show "commands (trace w') = commands (trace w)"
    using ret valid by (auto simp: defs cmds split: if_splits prod.splits)
  show "queue_sends (trace w') = queue_sends (trace w)"
    using ret valid by (auto simp: defs sends split: if_splits prod.splits)
qed

subsection \<open>One conversion cycle\<close>

lemma commands_append: "commands (xs @ ys) = commands xs @ commands ys"
  by (induction xs rule: commands.induct) simp_all

lemma queue_sends_append: "queue_sends (xs @ ys) = queue_sends xs @ queue_sends ys"
  by (induction xs rule: queue_sends.induct) simp_all

lemma StartADC_returns:
  assumes valid: "PIOS_MS5611_Validate (dev w) = 0"
    and ret: "PIOS_MS5611_StartADC w type = Some (rc, w')"
  shows "rc = 0"
    and "same_setup w w'"
    and "current_conversion_type (the (dev w')) = type"
    and "trace w' = trace w @
           [Command (word_of_int ((case type of TEMPERATURE_CONV \<Rightarrow> MS5611_TEMP_ADDR
                                     | PRESSURE_CONV \<Rightarrow> MS5611_PRES_ADDR)
                                  + oversampling (cfg (the (dev w)))))]"
    and "delta_temp w' = delta_temp w" and "temperature w' = temperature w"
    and "spi_blocks w' = spi_blocks w"
    and "temperature_unscaled (the (dev w')) = temperature_unscaled (the (dev w))"
    and "pressure_unscaled (the (dev w')) = pressure_unscaled (the (dev w))"
proof -
  let ?c = "word_of_int ((case type of TEMPERATURE_CONV \<Rightarrow> MS5611_TEMP_ADDR
                            | PRESSURE_CONV \<Rightarrow> MS5611_PRES_ADDR)
                         + oversampling (cfg (the (dev w)))) :: 8 word"
  obtain d where d: "dev w = Some d"
    using Validate_0_Some [OF valid] by blast
  from ret obtain w1 where w1: "write_until_accepted w ?c = Some w1"
    and res: "rc = 0" "w' = update_dev (\<lambda>d. d\<lparr>current_conversion_type := type\<rparr>) w1"
    by (auto simp: StartADC_valid [OF valid])
  from write_until_accepted_Some [OF w1 valid]
  obtain k where k: "spi_claim_ok w (spi_claims w + k)"
    "\<forall>j<k. \<not> spi_claim_ok w (spi_claims w + j)"
    by (rule first_grant)
  from write_until_accepted_granted [OF valid k] w1
  have w1_eq: "w1 = emit (Command ?c) (w\<lparr>spi_claims := spi_claims w + k + 1\<rparr>)"
    by simp
  show "rc = 0" by (rule res)
  show "same_setup w w'"
    using valid d
    by (auto simp: res w1_eq update_dev_def emit_def same_setup_def PIOS_MS5611_Validate_def
          split: if_splits)
  show "current_conversion_type (the (dev w')) = type"
    by (simp add: res w1_eq update_dev_def emit_def d)
  show "trace w' = trace w @ [Command ?c]"
    by (simp add: res w1_eq update_dev_def emit_def d)
  show "delta_temp w' = delta_temp w" "temperature w' = temperature w"
    "spi_blocks w' = spi_blocks w"
    "temperature_unscaled (the (dev w')) = temperature_unscaled (the (dev w))"
    "pressure_unscaled (the (dev w')) = pressure_unscaled (the (dev w))"
    by (simp_all add: res w1_eq update_dev_def emit_def d)
qed

lemma StartADC_terminates:
  assumes valid: "PIOS_MS5611_Validate (dev w) = 0"
    and fair: "bus_granted_eventually w"
  shows "\<exists>w'. PIOS_MS5611_StartADC w type = Some (0, w')"
proof -
  from fair have "\<exists>k. spi_claim_ok w (spi_claims w + k)"
    by (simp add: bus_granted_eventually_def)
  then obtain k where "spi_claim_ok w (spi_claims w + k)"
    "\<forall>j<k. \<not> spi_claim_ok w (spi_claims w + j)"
    by (rule first_grant)
  from write_until_accepted_granted [OF valid this] show ?thesis
    by (simp add: StartADC_valid [OF valid])
qed

lemma same_setup_fair:
  "same_setup w w' \<Longrightarrow> bus_granted_eventually w \<Longrightarrow> bus_granted_eventually w'"
  by (simp add: same_setup_def bus_granted_eventually_def)

lemma same_setup_valid: "same_setup w w' \<Longrightarrow> PIOS_MS5611_Validate (dev w') = 0"
  by (simp add: same_setup_def)

text \<open>
  A cycle on a valid device fails no assertion.  If it returns, it has written the
  one conversion command and nothing to the queue, and its status is 0 exactly when
  the bus was granted to the read (the last request made) and the block transfer of
  that read succeeded.
\<close>

lemma conversion_cycle_effect:
  assumes valid: "PIOS_MS5611_Validate (dev w) = 0"
    and delay: "delay = DELAY_WaitmS \<or> delay = Thread_Sleep"
    and ret: "conversion_cycle delay K type w = Some r"
  shows "\<exists>rc w'. r = Inr (rc, w') \<and> same_setup w w'
           \<and> commands (trace w') = commands (trace w) @
               [word_of_int ((case type of TEMPERATURE_CONV \<Rightarrow> MS5611_TEMP_ADDR
                                | PRESSURE_CONV \<Rightarrow> MS5611_PRES_ADDR)
                             + oversampling (cfg (the (dev w))))]
           \<and> queue_sends (trace w') = queue_sends (trace w)
           \<and> (rc = 0 \<or> rc = - 1)
           \<and> (rc = 0 \<longleftrightarrow> spi_claim_ok w (spi_claims w' - 1) \<and> fst (spi_block w (spi_blocks w' - 1)))"
proof -
  let ?w1 = "emit Semaphore_Take w"
  have claim: "PIOS_MS5611_ClaimDevice w = Inr ?w1"
    using valid by (simp add: PIOS_MS5611_ClaimDevice_def)
  have valid1: "PIOS_MS5611_Validate (dev ?w1) = 0"
    using valid by simp
  from ret claim obtain rc0 w2 where start: "PIOS_MS5611_StartADC ?w1 type = Some (rc0, w2)"
    by (auto simp: conversion_cycle_def split: option.splits)
  note s = StartADC_returns [OF valid1 start]
  let ?w3 = "emit (delay (PIOS_MS5611_GetDelay K w2)) w2"
  have valid3: "PIOS_MS5611_Validate (dev ?w3) = 0"
    using same_setup_valid [OF s(2)] by simp
  obtain rc w4 where read: "PIOS_MS5611_ReadADC ?w3 = (rc, w4)"
    by (cases "PIOS_MS5611_ReadADC ?w3")
  note f = ReadADC_frame [OF valid3 read]
  let ?w5 = "emit Semaphore_Give w4"
  have release: "PIOS_MS5611_ReleaseDevice w4 = Inr ?w5"
    using same_setup_valid [OF f(1)] by (simp add: PIOS_MS5611_ReleaseDevice_def)
  have r: "r = Inr (rc, ?w5)"
    using ret claim start read release by (simp add: conversion_cycle_def Let_def)
  have kept: "same_setup w ?w5"
    using s(2) f(1) valid by (simp add: same_setup_def emit_def)
  have cmds: "commands (trace ?w5) = commands (trace w) @
               [word_of_int ((case type of TEMPERATURE_CONV \<Rightarrow> MS5611_TEMP_ADDR
                                | PRESSURE_CONV \<Rightarrow> MS5611_PRES_ADDR)
                             + oversampling (cfg (the (dev w))))]"
    using f(6) s(4) delay by (auto simp: emit_def commands_append)
  have sends: "queue_sends (trace ?w5) = queue_sends (trace w)"
    using f(7) s(4) delay by (auto simp: emit_def queue_sends_append)
  have env: "spi_claim_ok ?w3 = spi_claim_ok w" "spi_block ?w3 = spi_block w"
    using s(2) by (simp_all add: same_setup_def emit_def)
  have idx: "spi_claims ?w5 - 1 = spi_claims ?w3"
    using f(4) by (simp add: emit_def)
  have ok: "rc = 0 \<longleftrightarrow> spi_claim_ok w (spi_claims ?w5 - 1) \<and> fst (spi_block w (spi_blocks ?w5 - 1))"
  proof (cases "spi_claim_ok ?w3 (spi_claims ?w3)")
    case True
    then have "spi_blocks ?w5 - 1 = spi_blocks ?w3"
      using f(5) by (simp add: emit_def)
    then show ?thesis using f(3) idx env by simp
  next
    case False
    then show ?thesis using f(3) idx env by simp
  qed
  from r kept cmds sends f(2) ok show ?thesis by blast
qed

lemma conversion_cycle_terminates:
  assumes valid: "PIOS_MS5611_Validate (dev w) = 0"
    and fair: "bus_granted_eventually w"
  shows "\<exists>r. conversion_cycle delay K type w = Some r"
proof -
  let ?w1 = "emit Semaphore_Take w"
  have "bus_granted_eventually ?w1"
    using fair by (simp add: bus_granted_eventually_def emit_def)
  moreover have "PIOS_MS5611_Validate (dev ?w1) = 0"
    using valid by simp
  ultimately obtain w2 where "PIOS_MS5611_StartADC ?w1 type = Some (0, w2)"
    using StartADC_terminates by blast
  then show ?thesis
    using valid
    by (auto simp: conversion_cycle_def PIOS_MS5611_ClaimDevice_def Let_def
          split: prod.splits sum.splits)
qed

subsection \<open>The sampling task\<close>

lemma conversion_command_same_setup:
  "same_setup w w' \<Longrightarrow> conversion_command w' type = conversion_command w type"
  by (simp add: same_setup_def conversion_command_def)

lemma task_iteration_effect:
  assumes valid: "PIOS_MS5611_Validate (dev w) = 0"
    and ret: "task_iteration K (w, c, r) = Some res"
  shows "\<exists>w' c' r'. res = Inr (w', c', r') \<and> same_setup w w'
           \<and> commands (trace w') = commands (trace w) @
               map (conversion_command w)
                 (if c - 1 = 0 then [TEMPERATURE_CONV, PRESSURE_CONV] else [PRESSURE_CONV])
           \<and> c' = (if c - 1 = 0
                    then (if temperature_interleaving (cfg (the (dev w))) = 0 then 1
                          else temperature_interleaving (cfg (the (dev w))))
                    else c - 1)
           \<and> queue_sends (trace w') = queue_sends (trace w) @
               (if r' = 0
                then [Queue_Send (temperature_unscaled (the (dev w')))
                        (pressure_unscaled (the (dev w'))) 0]
                else [])
           \<and> (r' = 0 \<or> r' = - 1)
           \<and> (r' = 0 \<longleftrightarrow>
                spi_claim_ok w (spi_claims w' - 1) \<and> fst (spi_block w (spi_blocks w' - 1)))"
proof -
  let ?ti = "temperature_interleaving (cfg (the (dev w)))"
  let ?first = "if c - 1 = 0 then
                   (case conversion_cycle Thread_Sleep K TEMPERATURE_CONV w of
                      None \<Rightarrow> None
                    | Some (Inl e) \<Rightarrow> Some (Inl e)
                    | Some (Inr (_, w1)) \<Rightarrow>
                        let c = temperature_interleaving (cfg (the (dev w1)))
                        in Some (Inr (w1, if c = 0 then 1 else c)))
                 else Some (Inr (w, c - 1))"
  have "\<exists>w2 c1. ?first = Some (Inr (w2, c1)) \<and> same_setup w w2
          \<and> commands (trace w2) = commands (trace w) @
               map (conversion_command w) (if c - 1 = 0 then [TEMPERATURE_CONV] else [])
          \<and> queue_sends (trace w2) = queue_sends (trace w)
          \<and> c1 = (if c - 1 = 0 then (if ?ti = 0 then 1 else ?ti) else c - 1)"
  proof (cases "c - 1 = 0")
    case True
    with ret obtain r1 where r1: "conversion_cycle Thread_Sleep K TEMPERATURE_CONV w = Some r1"
      by (auto simp: task_iteration_def Let_def split: option.splits)
    from conversion_cycle_effect [OF valid _ r1]
    obtain rc w1 where "r1 = Inr (rc, w1)" "same_setup w w1"
      "commands (trace w1) = commands (trace w) @ [conversion_command w TEMPERATURE_CONV]"
      "queue_sends (trace w1) = queue_sends (trace w)"
      by (auto simp: conversion_command_def)
    then show ?thesis using True r1 by (simp add: Let_def same_setup_def)
  next
    case False
    then show ?thesis using valid by (simp add: same_setup_def)
  qed
  then obtain w2 c1 where first: "?first = Some (Inr (w2, c1))" and k2: "same_setup w w2"
    and cmds2: "commands (trace w2) = commands (trace w) @
               map (conversion_command w) (if c - 1 = 0 then [TEMPERATURE_CONV] else [])"
    and sends2: "queue_sends (trace w2) = queue_sends (trace w)"
    and c1: "c1 = (if c - 1 = 0 then (if ?ti = 0 then 1 else ?ti) else c - 1)"
    by blast
  have unfold: "task_iteration K (w, c, r) =
      (case conversion_cycle Thread_Sleep K PRESSURE_CONV w2 of
         None \<Rightarrow> None
       | Some (Inl e) \<Rightarrow> Some (Inl e)
       | Some (Inr (read_adc_result, w3)) \<Rightarrow>
           let w4 = (if read_adc_result = 0
                     then emit (Queue_Send (temperature_unscaled (the (dev w3)))
                                  (pressure_unscaled (the (dev w3))) 0) w3
                     else w3)
           in Some (Inr (w4, c1, read_adc_result)))"
    unfolding task_iteration_def prod.case Let_def [of "c - 1"] first option.case sum.case ..
  from ret unfold obtain r2 where r2: "conversion_cycle Thread_Sleep K PRESSURE_CONV w2 = Some r2"
    by (auto split: option.splits)
  from conversion_cycle_effect [OF same_setup_valid [OF k2] _ r2]
  obtain rc w3 where w3: "r2 = Inr (rc, w3)" and k3: "same_setup w2 w3"
    and cmds3: "commands (trace w3) = commands (trace w2) @ [conversion_command w2 PRESSURE_CONV]"
    and sends3: "queue_sends (trace w3) = queue_sends (trace w2)"
    and rc: "rc = 0 \<or> rc = - 1"
    and ok: "rc = 0 \<longleftrightarrow> spi_claim_ok w2 (spi_claims w3 - 1) \<and> fst (spi_block w2 (spi_blocks w3 - 1))"
    by (auto simp: conversion_command_def)
  let ?w4 = "if rc = 0
             then emit (Queue_Send (temperature_unscaled (the (dev w3)))
                          (pressure_unscaled (the (dev w3))) 0) w3
             else w3"
  have res: "res = Inr (?w4, c1, rc)"
    using ret unfold r2 w3 by (simp add: Let_def)
  have k4: "same_setup w ?w4"
    using k2 k3 by (simp add: same_setup_def emit_def)
  have cmds4: "commands (trace ?w4) = commands (trace w) @
               map (conversion_command w)
                 (if c - 1 = 0 then [TEMPERATURE_CONV, PRESSURE_CONV] else [PRESSURE_CONV])"
    using cmds3 cmds2 conversion_command_same_setup [OF k2]
    by (simp add: emit_def commands_append)
  have sends4: "queue_sends (trace ?w4) = queue_sends (trace w) @
               (if rc = 0
                then [Queue_Send (temperature_unscaled (the (dev ?w4)))
                        (pressure_unscaled (the (dev ?w4))) 0]
                else [])"
    using sends3 sends2 by (simp add: emit_def queue_sends_append)
  have ok4: "rc = 0 \<longleftrightarrow>
               spi_claim_ok w (spi_claims ?w4 - 1) \<and> fst (spi_block w (spi_blocks ?w4 - 1))"
    using ok k2 by (simp add: same_setup_def emit_def)
  from res k4 cmds4 c1 sends4 rc ok4 show ?thesis by blast
qed

lemma task_iteration_terminates:
  assumes valid: "PIOS_MS5611_Validate (dev w) = 0"
    and fair: "bus_granted_eventually w"
  shows "\<exists>res. task_iteration K (w, c, r) = Some res"
proof -
  have cycle: "\<exists>rc w'. conversion_cycle Thread_Sleep K type v = Some (Inr (rc, w')) \<and> same_setup v w'"
    if "PIOS_MS5611_Validate (dev v) = 0" "bus_granted_eventually v" for v type
  proof -
    from conversion_cycle_terminates [OF that]
    obtain r1 where r1: "conversion_cycle Thread_Sleep K type v = Some r1" by blast
    from conversion_cycle_effect [OF that(1) _ r1] r1 show ?thesis by auto
  qed
  from cycle [OF valid fair]
  obtain rc1 w1 where t: "conversion_cycle Thread_Sleep K TEMPERATURE_CONV w = Some (Inr (rc1, w1))"
    and k1: "same_setup w w1" by blast
  from cycle [OF same_setup_valid [OF k1] same_setup_fair [OF k1 fair]]
  obtain rc2 w2 where p1: "conversion_cycle Thread_Sleep K PRESSURE_CONV w1 = Some (Inr (rc2, w2))"
    by blast
  from cycle [OF valid fair]
  obtain rc3 w3 where p2: "conversion_cycle Thread_Sleep K PRESSURE_CONV w = Some (Inr (rc3, w3))"
    by blast
  show ?thesis
    using t p1 p2 by (cases "c - 1 = 0") (simp_all add: task_iteration_def Let_def)
qed

text \<open>
  Any number of passes on a valid device with a bus that is granted eventually: the
  loop gets through all of them and starts the conversions the counter prescribes.
\<close>

lemma task_iterations_schedule:
  assumes "PIOS_MS5611_Validate (dev w) = 0" and "bus_granted_eventually w"
  shows "\<exists>w' c' r'. task_iterations K n (w, c, r) = Some (Inr (w', c', r')) \<and> same_setup w w'
           \<and> commands (trace w') = commands (trace w) @
               map (conversion_command w)
                 (interleave_schedule c (temperature_interleaving (cfg (the (dev w)))) n)"
  using assms
proof (induction n arbitrary: w c r)
  case 0
  then show ?case by (simp add: same_setup_def)
next
  case (Suc n)
  let ?ti = "temperature_interleaving (cfg (the (dev w)))"
  from task_iteration_terminates [OF Suc.prems]
  obtain res where res: "task_iteration K (w, c, r) = Some res" by blast
  from task_iteration_effect [OF Suc.prems(1) res]
  obtain w1 c1 r1 where r1: "res = Inr (w1, c1, r1)" and k1: "same_setup w w1"
    and cmds1: "commands (trace w1) = commands (trace w) @
               map (conversion_command w)
                 (if c - 1 = 0 then [TEMPERATURE_CONV, PRESSURE_CONV] else [PRESSURE_CONV])"
    and c1: "c1 = (if c - 1 = 0 then (if ?ti = 0 then 1 else ?ti) else c - 1)"
    by blast
  from Suc.IH [OF same_setup_valid [OF k1] same_setup_fair [OF k1 Suc.prems(2)], of c1 r1]
  obtain w' c' r' where rest: "task_iterations K n (w1, c1, r1) = Some (Inr (w', c', r'))"
    and k': "same_setup w1 w'"
    and cmds': "commands (trace w') = commands (trace w1) @
               map (conversion_command w1)
                 (interleave_schedule c1 (temperature_interleaving (cfg (the (dev w1)))) n)"
    by blast
  have ti: "temperature_interleaving (cfg (the (dev w1))) = ?ti"
    using k1 by (simp add: same_setup_def)
  have cc: "conversion_command w1 = conversion_command w"
    using conversion_command_same_setup [OF k1] by (rule ext)
  have "task_iterations K (Suc n) (w, c, r) = Some (Inr (w', c', r'))"
    using res r1 rest by simp
  moreover have "same_setup w w'"
    using k1 k' by (rule same_setup_trans)
  moreover have "commands (trace w') = commands (trace w) @
               map (conversion_command w) (interleave_schedule c ?ti (Suc n))"
    using cmds' cmds1 c1 by (simp add: ti cc)
  ultimately show ?case by blast
qed

lemma world_example_valid: "PIOS_MS5611_Validate (dev world_example) = 0"
  by code_simp

lemma world_example_fair: "bus_granted_eventually world_example"
proof -
  have "\<exists>k. (n + k) mod 3 \<noteq> 0" for n :: nat
    by presburger
  then show ?thesis
    by (simp add: bus_granted_eventually_def world_example_def)
qed

text \<open>
  C4 (as amended).  With \<open>temperature_interleaving = 3\<close> the conversions started are
  Temp, Pres, Pres, Pres, Temp, Pres, Pres over the first five passes of the loop, and
  Temp, Pres, Pres, Pres, Temp, Pres, Pres, Pres, Temp, Pres over the first seven.  In
  every pass the counter is decremented first; a temperature cycle runs exactly when
  it has reached zero, which is so in the first pass, and then the counter is set to
  the configured value, or to 1 if that is 0; a pressure cycle runs in every pass.
\<close>

theorem task_conversion_sequence:
  assumes valid: "PIOS_MS5611_Validate (dev w) = 0"
  shows "(bus_granted_eventually w \<and> temperature_interleaving (cfg (the (dev w))) = 3 \<longrightarrow>
            commands (task_trace (PIOS_MS5611_Task K 5 w)) = commands (trace w) @
              map (conversion_command w)
                [TEMPERATURE_CONV, PRESSURE_CONV, PRESSURE_CONV, PRESSURE_CONV,
                 TEMPERATURE_CONV, PRESSURE_CONV, PRESSURE_CONV]
          \<and> commands (task_trace (PIOS_MS5611_Task K 7 w)) = commands (trace w) @
              map (conversion_command w)
                [TEMPERATURE_CONV, PRESSURE_CONV, PRESSURE_CONV, PRESSURE_CONV,
                 TEMPERATURE_CONV, PRESSURE_CONV, PRESSURE_CONV, PRESSURE_CONV,
                 TEMPERATURE_CONV, PRESSURE_CONV])
       \<and> (\<forall>c r res. task_iteration K (w, c, r) = Some res \<longrightarrow>
            (\<exists>w' c' r'. res = Inr (w', c', r')
               \<and> commands (trace w') = commands (trace w) @
                   map (conversion_command w)
                     (if c - 1 = 0 then [TEMPERATURE_CONV, PRESSURE_CONV] else [PRESSURE_CONV])
               \<and> c' = (if c - 1 = 0
                        then (if temperature_interleaving (cfg (the (dev w))) = 0 then 1
                              else temperature_interleaving (cfg (the (dev w))))
                        else c - 1)))"
proof (intro conjI impI allI)
  fix c r res
  assume "task_iteration K (w, c, r) = Some res"
  from task_iteration_effect [OF valid this]
  show "\<exists>w' c' r'. res = Inr (w', c', r')
               \<and> commands (trace w') = commands (trace w) @
                   map (conversion_command w)
                     (if c - 1 = 0 then [TEMPERATURE_CONV, PRESSURE_CONV] else [PRESSURE_CONV])
               \<and> c' = (if c - 1 = 0
                        then (if temperature_interleaving (cfg (the (dev w))) = 0 then 1
                              else temperature_interleaving (cfg (the (dev w))))
                        else c - 1)"
    by blast
next
  assume a: "bus_granted_eventually w \<and> temperature_interleaving (cfg (the (dev w))) = 3"
  have five: "interleave_schedule 1 3 5 =
       [TEMPERATURE_CONV, PRESSURE_CONV, PRESSURE_CONV, PRESSURE_CONV,
        TEMPERATURE_CONV, PRESSURE_CONV, PRESSURE_CONV]"
    by code_simp
  from task_iterations_schedule [OF valid, of K 5 1 0] a
  show "commands (task_trace (PIOS_MS5611_Task K 5 w)) = commands (trace w) @
          map (conversion_command w)
            [TEMPERATURE_CONV, PRESSURE_CONV, PRESSURE_CONV, PRESSURE_CONV,
             TEMPERATURE_CONV, PRESSURE_CONV, PRESSURE_CONV]"
    by (auto simp: PIOS_MS5611_Task_def task_trace_def five)
next
  assume a: "bus_granted_eventually w \<and> temperature_interleaving (cfg (the (dev w))) = 3"
  have seven: "interleave_schedule 1 3 7 =
       [TEMPERATURE_CONV, PRESSURE_CONV, PRESSURE_CONV, PRESSURE_CONV,
        TEMPERATURE_CONV, PRESSURE_CONV, PRESSURE_CONV, PRESSURE_CONV,
        TEMPERATURE_CONV, PRESSURE_CONV]"
    by code_simp
  from task_iterations_schedule [OF valid, of K 7 1 0] a
  show "commands (task_trace (PIOS_MS5611_Task K 7 w)) = commands (trace w) @
          map (conversion_command w)
            [TEMPERATURE_CONV, PRESSURE_CONV, PRESSURE_CONV, PRESSURE_CONV,
             TEMPERATURE_CONV, PRESSURE_CONV, PRESSURE_CONV, PRESSURE_CONV,
             TEMPERATURE_CONV, PRESSURE_CONV]"
    by (auto simp: PIOS_MS5611_Task_def task_trace_def seven)
qed

theorem task_conversion_sequence_witness:
  "commands (task_trace (PIOS_MS5611_Task osr_example 5 world_example)) =
     [0x58, 0x48, 0x48, 0x48, 0x58, 0x48, 0x48]"
proof -
  have ti: "temperature_interleaving (cfg (the (dev world_example))) = 3"
    by code_simp
  have t: "conversion_command world_example TEMPERATURE_CONV = 0x58"
    and p: "conversion_command world_example PRESSURE_CONV = 0x48"
    and e: "trace world_example = []"
    by code_simp+
  from task_conversion_sequence [OF world_example_valid, of osr_example] world_example_fair ti
  show ?thesis by (simp add: t p e)
qed

text \<open>
  The claim as it was stated gives Temp, Pres, Pres, Pres, Temp, Pres, Pres as the
  sequence over seven passes.  Seven passes of the example start ten conversions.
\<close>

theorem task_conversion_sequence_counterexample:
  "commands (task_trace (PIOS_MS5611_Task osr_example 7 world_example)) \<noteq>
     map (conversion_command world_example)
       [TEMPERATURE_CONV, PRESSURE_CONV, PRESSURE_CONV, PRESSURE_CONV,
        TEMPERATURE_CONV, PRESSURE_CONV, PRESSURE_CONV]"
  by code_simp



text \<open>
  C3 (as amended).  On a valid device whose bus is granted eventually the self-test
  returns, after one temperature and one pressure conversion.  It returns -1 if the
  unscaled temperature is then outside \<open>[-4000, 8500]\<close> or the unscaled pressure is
  outside \<open>[1000, 120000]\<close>, and 0 otherwise.
\<close>

theorem selftest_range_check:
  assumes valid: "PIOS_MS5611_Validate (dev w) = 0"
    and fair: "bus_granted_eventually w"
  shows "\<exists>rc w'. PIOS_MS5611_SPI_Test K w = Some (Inr (rc, w'))
           \<and> commands (trace w') = commands (trace w) @
               map (conversion_command w) [TEMPERATURE_CONV, PRESSURE_CONV]
           \<and> (rc = 0 \<or> rc = - 1)
           \<and> (rc = - 1 \<longleftrightarrow>
                sint (temperature_unscaled (the (dev w'))) < - 4000 \<or>
                8500 < sint (temperature_unscaled (the (dev w'))) \<or>
                sint (pressure_unscaled (the (dev w'))) < 1000 \<or>
                120000 < sint (pressure_unscaled (the (dev w'))))"
proof -
  from conversion_cycle_terminates [OF valid fair]
  obtain r1 where r1: "conversion_cycle DELAY_WaitmS K TEMPERATURE_CONV w = Some r1"
    by blast
  from conversion_cycle_effect [OF valid _ r1]
  obtain rc1 w1 where w1: "r1 = Inr (rc1, w1)" and k1: "same_setup w w1"
    and cmds1: "commands (trace w1) = commands (trace w) @ [conversion_command w TEMPERATURE_CONV]"
    by (auto simp: conversion_command_def)
  from conversion_cycle_terminates [OF same_setup_valid [OF k1] same_setup_fair [OF k1 fair]]
  obtain r2 where r2: "conversion_cycle DELAY_WaitmS K PRESSURE_CONV w1 = Some r2"
    by blast
  from conversion_cycle_effect [OF same_setup_valid [OF k1] _ r2]
  obtain rc2 w2 where w2: "r2 = Inr (rc2, w2)"
    and cmds2: "commands (trace w2) = commands (trace w1) @ [conversion_command w1 PRESSURE_CONV]"
    by (auto simp: conversion_command_def)
  let ?bad = "sint (temperature_unscaled (the (dev w2))) < - 4000 \<or>
              8500 < sint (temperature_unscaled (the (dev w2))) \<or>
              sint (pressure_unscaled (the (dev w2))) < 1000 \<or>
              120000 < sint (pressure_unscaled (the (dev w2)))"
  have test: "PIOS_MS5611_SPI_Test K w = Some (Inr (if ?bad then - 1 else 0, w2))"
    using valid r1 w1 r2 w2 by (simp add: PIOS_MS5611_SPI_Test_def word_sless_alt)
  have cmds: "commands (trace w2) = commands (trace w) @
               map (conversion_command w) [TEMPERATURE_CONV, PRESSURE_CONV]"
    using cmds1 cmds2 conversion_command_same_setup [OF k1] by simp
  show ?thesis
  proof (cases ?bad)
    case True
    with test cmds show ?thesis by (intro exI [of _ "- 1"] exI [of _ w2]) simp
  next
    case False
    with test cmds show ?thesis by (intro exI [of _ 0] exI [of _ w2]) simp
  qed
qed

theorem selftest_range_check_witness:
  "PIOS_MS5611_Validate (dev world_example) = 0 \<and> bus_granted_eventually world_example \<and>
   (\<exists>rc w'. PIOS_MS5611_SPI_Test osr_example world_example = Some (Inr (rc, w'))
           \<and> (rc = - 1 \<longleftrightarrow>
                sint (temperature_unscaled (the (dev w'))) < - 4000 \<or>
                8500 < sint (temperature_unscaled (the (dev w'))) \<or>
                sint (pressure_unscaled (the (dev w'))) < 1000 \<or>
                120000 < sint (pressure_unscaled (the (dev w')))))"
  using selftest_range_check [OF world_example_valid world_example_fair, of osr_example]
    world_example_valid world_example_fair
  by blast

text \<open>
  With the readings of the data sheet the self-test succeeds at a pressure of 100009,
  far outside the window \<open>[100, 12000]\<close> of the claim as it was stated.
\<close>

theorem selftest_range_check_counterexample:
  "returned_status (PIOS_MS5611_SPI_Test osr_example world_example) = Some 0 \<and>
   \<not> spec_selftest_in_range
       (sint (temperature_unscaled
          (the (dev (the (returned_world (PIOS_MS5611_SPI_Test osr_example world_example)))))))
       (sint (pressure_unscaled
          (the (dev (the (returned_world (PIOS_MS5611_SPI_Test osr_example world_example)))))))"
  by code_simp

subsection \<open>PIOS\_MS5611\_SPI\_Init\<close>

lemma Init_allocation_fails:
  "\<not> malloc_ok A \<or> \<not> queue_ok A \<Longrightarrow>
   PIOS_MS5611_SPI_Init A data w sid sn c = Inr (- 1, w\<lparr>dev := None\<rparr>)"
  by (auto simp: PIOS_MS5611_SPI_Init_def PIOS_MS5611_alloc_def)

lemma Init_reset_fails:
  assumes "malloc_ok A" "queue_ok A" "semaphore_ok A" and "\<not> spi_claim_ok w (spi_claims w)"
  shows "\<exists>w'. PIOS_MS5611_SPI_Init A data w sid sn c = Inr (- 2, w')"
  using assms
  by (simp add: PIOS_MS5611_SPI_Init_def PIOS_MS5611_alloc_def PIOS_MS5611_WriteCommand_def
        PIOS_MS5611_ClaimBus_def Let_def split: prod.splits)

text \<open>
  C6.  \<open>PIOS_MS5611_SPI_Init\<close> returns -1 when the allocation fails and -2 when the reset
  command fails (the two lemmas above), but it drops the status of the six
  calibration reads.  Here the bus is granted for the reset and refused to every
  read: the function returns 0, no byte has been read, and the six calibration words
  are built from what the uninitialised buffer happened to hold.
\<close>

theorem Init_ignores_failed_calibration_reads:
  "(case PIOS_MS5611_SPI_Init alloc_fine [0xAA, 0x55] world_boot 1 0 (cfg dev_example) of
      Inl e \<Rightarrow> False
    | Inr (rc, w') \<Rightarrow>
        rc = 0 \<and> spi_claims w' = 7 \<and> spi_blocks w' = 0 \<and>
        trace w' = [Command 0x1E, DELAY_WaitmS 20, SENSORS_Register, Thread_Create] \<and>
        map_option calibration (dev w') = Some (replicate 6 0xAA55))"
  by code_simp

subsection \<open>The arithmetic of PIOS\_MS5611\_ReadADC\<close>

text \<open>Bounds on products and shifts of integers.\<close>

lemma int_mult_bound:
  fixes x y :: int
  assumes "- A \<le> x" "x \<le> A" "- B \<le> y" "y \<le> B"
  shows "- (A * B) \<le> x * y \<and> x * y \<le> A * B"
proof -
  have "\<bar>x\<bar> \<le> A" "\<bar>y\<bar> \<le> B" using assms by simp_all
  then have "\<bar>x\<bar> * \<bar>y\<bar> \<le> A * B"
    by (intro mult_mono) simp_all
  then have "\<bar>x * y\<bar> \<le> A * B" by (simp add: abs_mult)
  then show ?thesis by linarith
qed

lemma int_shift_bound:
  fixes x :: int
  assumes "- (B * 2 ^ n) \<le> x" "x \<le> B * 2 ^ n"
  shows "- B \<le> x div 2 ^ n \<and> x div 2 ^ n \<le> B"
proof -
  have pos: "(0 :: int) < 2 ^ n" by simp
  have ne: "(2 :: int) ^ n \<noteq> 0" by simp
  have cancel: "(k * 2 ^ n) div 2 ^ n = k" for k :: int
    by (rule nonzero_mult_div_cancel_right) (rule ne)
  have "(- B) * 2 ^ n \<le> x" using assms(1) by simp
  then have "((- B) * 2 ^ n) div 2 ^ n \<le> x div 2 ^ n"
    using pos by (rule zdiv_mono1)
  then have lower: "- B \<le> x div 2 ^ n" by (simp only: cancel)
  have "x div 2 ^ n \<le> (B * 2 ^ n) div 2 ^ n"
    using assms(2) pos by (rule zdiv_mono1)
  then have "x div 2 ^ n \<le> B" by (simp only: cancel)
  with lower show ?thesis ..
qed

text \<open>Signed 64-bit arithmetic agrees with the integers as long as nothing overflows.\<close>

lemma sint64_fits:
  fixes v :: int
  assumes "- B \<le> v" "v \<le> B" "B < 2 ^ 63"
  shows "signed_take_bit 63 v = v"
  using assms by (intro signed_take_bit_int_eq_self) simp_all

lemma holds_mult:
  assumes "holds a x A" "holds b y B" "A * B \<le> C" "C < 2 ^ 63"
  shows "holds (a * b) (x * y) C"
proof -
  from assms(1,2) have v: "sint a = x" "sint b = y"
    and x: "- A \<le> x" "x \<le> A" and y: "- B \<le> y" "y \<le> B"
    by (simp_all add: holds_def)
  from int_mult_bound [OF x y] assms(3) have c: "- C \<le> x * y" "x * y \<le> C"
    by linarith+
  show ?thesis
    using c by (simp add: holds_def sint_word_mult v sint64_fits [OF c assms(4)])
qed

lemma holds_add:
  assumes "holds a x A" "holds b y B" "A + B \<le> C" "C < 2 ^ 63"
  shows "holds (a + b) (x + y) C"
proof -
  from assms(1,2,3) have v: "sint a = x" "sint b = y"
    and c: "- C \<le> x + y" "x + y \<le> C"
    by (auto simp: holds_def)
  show ?thesis
    using c by (simp add: holds_def sint_word_add v sint64_fits [OF c assms(4)])
qed

lemma holds_diff:
  assumes "holds a x A" "holds b y B" "A + B \<le> C" "C < 2 ^ 63"
  shows "holds (a - b) (x - y) C"
proof -
  from assms(1,2,3) have v: "sint a = x" "sint b = y"
    and c: "- C \<le> x - y" "x - y \<le> C"
    by (auto simp: holds_def)
  show ?thesis
    using c by (simp add: holds_def sint_word_diff v sint64_fits [OF c assms(4)])
qed

lemma holds_shift:
  assumes "holds a x A" "A \<le> B * 2 ^ n"
  shows "holds (signed_drop_bit n a) (x div 2 ^ n) B"
proof -
  from assms have "sint a = x" "- (B * 2 ^ n) \<le> x" "x \<le> B * 2 ^ n"
    by (auto simp: holds_def)
  then show ?thesis
    using int_shift_bound [of B n x]
    by (simp add: holds_def sint_signed_drop_bit_eq drop_bit_int_def)
qed

lemma holds_numeral:
  assumes "numeral k < (2 :: int) ^ 63"
  shows "holds (numeral k) (numeral k) (numeral k)"
proof -
  have "- numeral k \<le> (numeral k :: int)" by simp
  then have "signed_take_bit 63 (numeral k :: int) = numeral k"
    using assms by (intro sint64_fits [where B = "numeral k"]) simp_all
  then show ?thesis by (simp add: holds_def)
qed

lemma holds_ucast16: "holds (ucast (c :: 16 word)) (uint c) 65536"
proof -
  have "uint c < 65536" using uint_bounded [of c] by simp
  then have b: "- 65536 \<le> uint c" "uint c \<le> 65536"
    using uint_ge_0 [of c] by linarith+
  from sint64_fits [OF b] have "signed_take_bit 63 (uint c) = uint c" by simp
  then show ?thesis
    using b by (simp add: holds_def sint_uint uint_up_ucast is_up)
qed

lemma holds_ucast32:
  assumes "uint (r :: 32 word) < 2 ^ 24"
  shows "holds (ucast r) (uint r) (2 ^ 24)"
proof -
  have "uint r < 16777216" using assms by simp
  then have "- 16777216 \<le> uint r" "uint r \<le> 16777216"
    using uint_ge_0 [of r] by linarith+
  then have b: "- (2 ^ 24) \<le> uint r" "uint r \<le> 2 ^ 24"
    by simp_all
  from sint64_fits [OF b] have "signed_take_bit 63 (uint r) = uint r" by simp
  then show ?thesis
    using b by (simp add: holds_def sint_uint uint_up_ucast is_up)
qed

text \<open>The raw code assembled from the three bytes read.\<close>

lemma or_push_bit_int:
  fixes x y :: int
  assumes "0 \<le> y" "y < 2 ^ n"
  shows "push_bit n x OR y = x * 2 ^ n + y"
proof -
  have "take_bit n y = y" using assms by (simp add: take_bit_int_eq_self)
  then have "y + push_bit n x = y OR push_bit n x"
    by (metis concat_bit_def concat_bit_eq)
  then show ?thesis by (simp add: push_bit_eq_mult ac_simps)
qed

lemma uint_raw_adc: "uint (raw_adc [a, b, c]) = uint a * 2 ^ 16 + uint b * 2 ^ 8 + uint c"
proof -
  have a: "uint a < 2 ^ 8" "0 \<le> uint a" using uint_bounded [of a] by simp_all
  have b: "uint b < 2 ^ 8" "0 \<le> uint b" using uint_bounded [of b] by simp_all
  have c: "uint c < 2 ^ 8" "0 \<le> uint c" using uint_bounded [of c] by simp_all
  have "take_bit 32 (push_bit 16 (uint a)) = push_bit 16 (uint a)"
    using a by (intro take_bit_int_eq_self) (simp_all add: push_bit_eq_mult)
  then have ua: "uint (push_bit 16 (ucast a :: 32 word)) = push_bit 16 (uint a)"
    by (simp add: unsigned_push_bit_eq uint_up_ucast is_up)
  have "take_bit 32 (push_bit 8 (uint b)) = push_bit 8 (uint b)"
    using b by (intro take_bit_int_eq_self) (simp_all add: push_bit_eq_mult)
  then have ub: "uint (push_bit 8 (ucast b :: 32 word)) = push_bit 8 (uint b)"
    by (simp add: unsigned_push_bit_eq uint_up_ucast is_up)
  have uc: "uint (ucast c :: 32 word) = uint c"
    by (simp add: uint_up_ucast is_up)
  have "uint (raw_adc [a, b, c]) = (push_bit 16 (uint a) OR push_bit 8 (uint b)) OR uint c"
    by (simp add: raw_adc_def uint_or ua ub uc or.assoc)
  also have "push_bit 16 (uint a) OR push_bit 8 (uint b) = push_bit 8 (push_bit 8 (uint a) OR uint b)"
    by simp
  also have "push_bit 8 (uint a) OR uint b = uint a * 2 ^ 8 + uint b"
    by (rule or_push_bit_int [OF b(2) b(1)])
  also have "push_bit 8 (uint a * 2 ^ 8 + uint b) OR uint c = (uint a * 2 ^ 8 + uint b) * 2 ^ 8 + uint c"
    by (rule or_push_bit_int [OF c(2) c(1)])
  finally show ?thesis by (simp add: algebra_simps)
qed

lemma uint_raw_adc_bound: "uint (raw_adc [a, b, c]) < 2 ^ 24"
proof -
  have "uint a \<le> 255" "uint b \<le> 255" "uint c \<le> 255"
    using uint_bounded [of a] uint_bounded [of b] uint_bounded [of c] by simp_all
  then show ?thesis by (simp add: uint_raw_adc)
qed

text \<open>
  \<open>(int32_t)raw_temperature - (dev->calibration[4] << 8)\<close>, computed in 32 bits and
  widened to 64.
\<close>

lemma delta_temp_exact:
  assumes "uint (raw :: 32 word) < 2 ^ 24"
  shows "holds (scast (raw - push_bit 8 (ucast (c4 :: 16 word) :: 32 word)) :: 64 word)
           (uint raw - uint c4 * 2 ^ 8) (2 ^ 24)"
proof -
  have c: "0 \<le> uint c4" "uint c4 < 65536" using uint_bounded [of c4] by simp_all
  have r: "0 \<le> uint raw" "uint raw < 16777216" using assms by simp_all
  have "0 \<le> uint c4 * 256" "uint c4 * 256 < 4294967296" using c by linarith+
  then have "0 \<le> push_bit 8 (uint c4)" "push_bit 8 (uint c4) < 2 ^ 32"
    by (simp_all add: push_bit_eq_mult)
  then have "take_bit 32 (push_bit 8 (uint c4)) = push_bit 8 (uint c4)"
    by (rule take_bit_int_eq_self)
  then have "uint (push_bit 8 (ucast c4 :: 32 word)) = push_bit 8 (uint c4)"
    by (simp add: unsigned_push_bit_eq uint_up_ucast is_up)
  then have us: "uint (push_bit 8 (ucast c4 :: 32 word)) = uint c4 * 256"
    by (simp add: push_bit_eq_mult)
  have "- 2147483648 \<le> uint raw" "uint raw < 2147483648"
    using r by linarith+
  then have "- (2 ^ 31) \<le> uint raw" "uint raw < 2 ^ 31"
    by simp_all
  then have "signed_take_bit 31 (uint raw) = uint raw"
    by (rule signed_take_bit_int_eq_self)
  then have sr: "sint raw = uint raw"
    by (simp add: sint_uint)
  have "- 2147483648 \<le> uint c4 * 256" "uint c4 * 256 < 2147483648"
    using c by linarith+
  then have "- (2 ^ 31) \<le> uint c4 * 256" "uint c4 * 256 < 2 ^ 31"
    by simp_all
  then have "signed_take_bit 31 (uint c4 * 256) = uint c4 * 256"
    by (rule signed_take_bit_int_eq_self)
  then have ss: "sint (push_bit 8 (ucast c4 :: 32 word)) = uint c4 * 256"
    by (simp only: sint_uint us) simp
  have range: "- 16777216 \<le> uint raw - uint c4 * 256" "uint raw - uint c4 * 256 \<le> 16777216"
    using c r by linarith+
  then have "- 2147483648 \<le> uint raw - uint c4 * 256" "uint raw - uint c4 * 256 < 2147483648"
    by linarith+
  then have "- (2 ^ 31) \<le> uint raw - uint c4 * 256" "uint raw - uint c4 * 256 < 2 ^ 31"
    by simp_all
  then have "signed_take_bit 31 (uint raw - uint c4 * 256) = uint raw - uint c4 * 256"
    by (rule signed_take_bit_int_eq_self)
  then have "sint (raw - push_bit 8 (ucast c4 :: 32 word)) = uint raw - uint c4 * 256"
    by (simp only: sint_word_diff sr ss) simp
  moreover have "is_up (scast :: 32 word \<Rightarrow> 64 word)"
    by (simp add: is_up)
  ultimately have "sint (scast (raw - push_bit 8 (ucast c4 :: 32 word)) :: 64 word)
               = uint raw - uint c4 * 256"
    by (simp only: sint_up_scast)
  then show ?thesis
    using range unfolding holds_def by simp
qed

lemma temperature_compensation_exact:
  assumes cal: "cal = [c0, c1, c2, c3, c4, c5]" and raw: "uint raw < 2 ^ 24"
  shows "case temperature_compensation cal raw of
           (dT, temp, unscaled) \<Rightarrow>
             sint dT = spec_delta_temp (uint raw) (uint c4) \<and>
             sint temp = spec_temperature_uncorrected (sint dT) (uint c5) \<and>
             sint unscaled = spec_temperature (sint dT) (uint c5)"
proof -
  define dT :: "64 word" where "dT = scast (raw - push_bit 8 (ucast c4 :: 32 word))"
  define temp :: "64 word" where "temp = 2000 + signed_drop_bit 23 (dT * ucast c5)"
  define x where "x = uint raw - uint c4 * 2 ^ 8"
  define t where "t = 2000 + (x * uint c5) div 2 ^ 23"
  have eq: "temperature_compensation cal raw =
              (dT, temp, if temp <s 2000 then temp - signed_drop_bit 31 (dT * dT) else temp)"
    by (simp add: temperature_compensation_def Let_def dT_def temp_def cal)
  have h_dT: "holds dT x (2 ^ 24)"
    unfolding dT_def x_def by (rule delta_temp_exact [OF raw])
  have h_m: "holds (dT * ucast c5) (x * uint c5) (2 ^ 40)"
    by (rule holds_mult [OF h_dT holds_ucast16]) simp_all
  have h_s: "holds (signed_drop_bit 23 (dT * ucast c5)) ((x * uint c5) div 2 ^ 23) (2 ^ 17)"
    by (rule holds_shift [OF h_m]) simp
  have h_2000: "holds 2000 2000 2000"
    by (rule holds_numeral) simp
  have h_t: "holds temp t 133072"
    unfolding temp_def t_def by (rule holds_add [OF h_2000 h_s]) simp_all
  have h_sq: "holds (dT * dT) (x * x) (2 ^ 48)"
    by (rule holds_mult [OF h_dT h_dT]) simp_all
  have h_sh: "holds (signed_drop_bit 31 (dT * dT)) ((x * x) div 2 ^ 31) (2 ^ 17)"
    by (rule holds_shift [OF h_sq]) simp
  have h_u: "holds (temp - signed_drop_bit 31 (dT * dT)) (t - (x * x) div 2 ^ 31) (2 ^ 19)"
    by (rule holds_diff [OF h_t h_sh]) simp_all
  have s_dT: "sint dT = x" using h_dT by (simp add: holds_def)
  have s_t: "sint temp = t" using h_t by (simp add: holds_def)
  have s_u: "sint (temp - signed_drop_bit 31 (dT * dT)) = t - (x * x) div 2 ^ 31"
    using h_u by (simp add: holds_def)
  have s_2000: "sint (2000 :: 64 word) = 2000" using h_2000 by (simp add: holds_def)
  have less: "temp <s 2000 \<longleftrightarrow> t < 2000"
    by (simp only: word_sless_alt s_t s_2000)
  have "sint dT = spec_delta_temp (uint raw) (uint c4)"
    by (simp add: s_dT x_def spec_delta_temp_def)
  moreover have "sint temp = spec_temperature_uncorrected (sint dT) (uint c5)"
    by (simp add: s_t s_dT t_def spec_temperature_uncorrected_def)
  moreover have "sint (if temp <s 2000 then temp - signed_drop_bit 31 (dT * dT) else temp)
                   = spec_temperature (sint dT) (uint c5)"
    by (simp only: less s_dT spec_temperature_def spec_temperature_uncorrected_def Let_def
          t_def [symmetric] if_distrib [of sint] s_u s_t power2_eq_square)
  ultimately show ?thesis by (simp only: eq prod.case)
qed

text \<open>The last line of the pressure branch, for any offset and sensitivity in range.\<close>

lemma pressure_result_exact:
  assumes sens: "holds sens sv (2 ^ 37)" and offset: "holds offset ov (2 ^ 38)"
    and raw: "uint (raw :: 32 word) < 2 ^ 24"
  shows "sint (signed_drop_bit 15 (signed_drop_bit 21 (ucast raw * sens) - offset))
           = ((uint raw * sv) div 2 ^ 21 - ov) div 2 ^ 15"
proof -
  have h_m: "holds (ucast raw * sens) (uint raw * sv) (2 ^ 61)"
    by (rule holds_mult [OF holds_ucast32 [OF raw] sens]) simp_all
  have h_s: "holds (signed_drop_bit 21 (ucast raw * sens)) ((uint raw * sv) div 2 ^ 21) (2 ^ 40)"
    by (rule holds_shift [OF h_m]) simp
  have h_d: "holds (signed_drop_bit 21 (ucast raw * sens) - offset)
               ((uint raw * sv) div 2 ^ 21 - ov) (2 ^ 41)"
    by (rule holds_diff [OF h_s offset]) simp_all
  have "holds (signed_drop_bit 15 (signed_drop_bit 21 (ucast raw * sens) - offset))
          (((uint raw * sv) div 2 ^ 21 - ov) div 2 ^ 15) (2 ^ 26)"
    by (rule holds_shift [OF h_d]) simp
  then show ?thesis by (simp add: holds_def)
qed

lemma holds_weaken: "holds a v B \<Longrightarrow> B \<le> C \<Longrightarrow> holds a v C"
  by (auto simp: holds_def)

lemma pressure_compensation_exact:
  assumes cal: "cal = [c0, c1, c2, c3, c4, c5]" and raw: "uint raw < 2 ^ 24"
    and dT: "- (2 ^ 24) \<le> sint dT" "sint dT \<le> 2 ^ 24"
    and temp: "sint temp = spec_temperature_uncorrected (sint dT) (uint c5)"
  shows "sint (pressure_compensation cal dT temp unscaled raw)
           = spec_pressure (uint c0) (uint c1) (uint c2) (uint c3)
               (sint dT) (sint temp) (sint unscaled) (uint raw)"
proof -
  define x where "x = sint dT"
  define t where "t = sint temp"
  define offset0 :: "64 word"
    where "offset0 = push_bit 16 (ucast c1) + signed_drop_bit 7 (ucast c3 * dT)"
  define sens1 :: "64 word"
    where "sens1 = push_bit 15 (ucast c0) + signed_drop_bit 8 (ucast c2 * dT)"
  define q :: "64 word" where "q = 5 * (temp - 2000) * (temp - 2000)"
  define e7 :: "64 word" where "e7 = 7 * (temp + 1500) * (temp + 1500)"
  define e11 :: "64 word" where "e11 = 11 * (temp + 1500) * (temp + 1500)"
  define offset sens where "offset =
      (if temp <s 2000 then
         if unscaled <s - 1500 then offset0 - signed_drop_bit 1 q - e7
         else offset0 - signed_drop_bit 1 q
       else offset0)"
    and "sens =
      (if temp <s 2000 then
         if unscaled <s - 1500 then sens1 - signed_drop_bit 2 q - signed_drop_bit 1 e11
         else sens1 - signed_drop_bit 2 q
       else sens1)"
  have eq: "pressure_compensation cal dT temp unscaled raw =
              signed_drop_bit 15 (signed_drop_bit 21 (ucast raw * sens) - offset)"
    by (simp add: pressure_compensation_def Let_def offset_def sens_def offset0_def sens1_def
          q_def e7_def e11_def cal)
  \<comment> \<open>the inputs\<close>
  have h_dT: "holds dT x (2 ^ 24)"
    using dT by (simp add: holds_def x_def)
  have "uint c5 < 65536"
    using uint_bounded [of c5] by simp
  then have c5: "- 65536 \<le> uint c5" "uint c5 \<le> 65536"
    using uint_ge_0 [of c5] by linarith+
  have "- (2 ^ 24 * 65536) \<le> x * uint c5 \<and> x * uint c5 \<le> 2 ^ 24 * 65536"
    unfolding x_def by (rule int_mult_bound [OF dT c5])
  then have "- (2 ^ 17 * 2 ^ 23) \<le> x * uint c5" "x * uint c5 \<le> 2 ^ 17 * 2 ^ 23"
    by simp_all
  from int_shift_bound [OF this]
  have "- 131072 \<le> (x * uint c5) div 2 ^ 23" "(x * uint c5) div 2 ^ 23 \<le> 131072"
    by simp_all
  then have "- 133072 \<le> t" "t \<le> 133072"
    unfolding t_def temp spec_temperature_uncorrected_def x_def [symmetric] by linarith+
  then have h_t: "holds temp t 133072"
    by (simp add: holds_def t_def)
  have h_2000: "holds 2000 2000 2000" and h_1500: "holds 1500 1500 1500"
    and h_5: "holds 5 5 5" and h_7: "holds 7 7 7" and h_11: "holds 11 11 11"
    and h_p16: "holds 65536 65536 65536" and h_p15: "holds 32768 32768 32768"
    by (rule holds_numeral, simp)+
  \<comment> \<open>first-order offset and sensitivity\<close>
  have p16: "push_bit 16 (ucast c1 :: 64 word) = ucast c1 * 65536"
    and p15: "push_bit 15 (ucast c0 :: 64 word) = ucast c0 * 32768"
    by (simp_all add: push_bit_eq_mult)
  have h_c1: "holds (push_bit 16 (ucast c1)) (uint c1 * 65536) (2 ^ 32)"
    unfolding p16 by (rule holds_mult [OF holds_ucast16 h_p16]) simp_all
  have h_m3: "holds (ucast c3 * dT) (uint c3 * x) (2 ^ 40)"
    by (rule holds_mult [OF holds_ucast16 h_dT]) simp_all
  have h_s3: "holds (signed_drop_bit 7 (ucast c3 * dT)) ((uint c3 * x) div 2 ^ 7) (2 ^ 33)"
    by (rule holds_shift [OF h_m3]) simp
  have h_off0: "holds offset0 (uint c1 * 65536 + (uint c3 * x) div 2 ^ 7) (2 ^ 34)"
    unfolding offset0_def by (rule holds_add [OF h_c1 h_s3]) simp_all
  have h_c0: "holds (push_bit 15 (ucast c0)) (uint c0 * 32768) (2 ^ 31)"
    unfolding p15 by (rule holds_mult [OF holds_ucast16 h_p15]) simp_all
  have h_m2: "holds (ucast c2 * dT) (uint c2 * x) (2 ^ 40)"
    by (rule holds_mult [OF holds_ucast16 h_dT]) simp_all
  have h_s2: "holds (signed_drop_bit 8 (ucast c2 * dT)) ((uint c2 * x) div 2 ^ 8) (2 ^ 32)"
    by (rule holds_shift [OF h_m2]) simp
  have h_sens1: "holds sens1 (uint c0 * 32768 + (uint c2 * x) div 2 ^ 8) 6442450944"
    unfolding sens1_def by (rule holds_add [OF h_c0 h_s2]) simp_all
  \<comment> \<open>second order\<close>
  have h_d: "holds (temp - 2000) (t - 2000) 135072"
    by (rule holds_diff [OF h_t h_2000]) simp_all
  have h_5d: "holds (5 * (temp - 2000)) (5 * (t - 2000)) 675360"
    by (rule holds_mult [OF h_5 h_d]) simp_all
  have "holds q (5 * (t - 2000) * (t - 2000)) 91222225920"
    unfolding q_def by (rule holds_mult [OF h_5d h_d]) simp_all
  then have h_q: "holds q (5 * (t - 2000)\<^sup>2) 91222225920"
    by (simp only: power2_eq_square mult.assoc)
  have h_q1: "holds (signed_drop_bit 1 q) (5 * (t - 2000)\<^sup>2 div 2 ^ 1) 45611112960"
    by (rule holds_shift [OF h_q]) simp
  have h_q2: "holds (signed_drop_bit 2 q) (5 * (t - 2000)\<^sup>2 div 2 ^ 2) 22805556480"
    by (rule holds_shift [OF h_q]) simp
  have h_off1: "holds (offset0 - signed_drop_bit 1 q)
      (uint c1 * 65536 + (uint c3 * x) div 2 ^ 7 - 5 * (t - 2000)\<^sup>2 div 2 ^ 1) 62791000000"
    by (rule holds_diff [OF h_off0 h_q1]) simp_all
  have h_sens2: "holds (sens1 - signed_drop_bit 2 q)
      (uint c0 * 32768 + (uint c2 * x) div 2 ^ 8 - 5 * (t - 2000)\<^sup>2 div 2 ^ 2) 29248007424"
    by (rule holds_diff [OF h_sens1 h_q2]) simp_all
  \<comment> \<open>third order\<close>
  have h_e: "holds (temp + 1500) (t + 1500) 134572"
    by (rule holds_add [OF h_t h_1500]) simp_all
  have h_7e: "holds (7 * (temp + 1500)) (7 * (t + 1500)) 942004"
    by (rule holds_mult [OF h_7 h_e]) simp_all
  have "holds e7 (7 * (t + 1500) * (t + 1500)) 126767362288"
    unfolding e7_def by (rule holds_mult [OF h_7e h_e]) simp_all
  then have h_e7: "holds e7 (7 * (t + 1500)\<^sup>2) 126767362288"
    by (simp only: power2_eq_square mult.assoc)
  have h_11e: "holds (11 * (temp + 1500)) (11 * (t + 1500)) 1480292"
    by (rule holds_mult [OF h_11 h_e]) simp_all
  have "holds e11 (11 * (t + 1500) * (t + 1500)) 199205855024"
    unfolding e11_def by (rule holds_mult [OF h_11e h_e]) simp_all
  then have h_e11: "holds e11 (11 * (t + 1500)\<^sup>2) 199205855024"
    by (simp only: power2_eq_square mult.assoc)
  have h_e11s: "holds (signed_drop_bit 1 e11) (11 * (t + 1500)\<^sup>2 div 2 ^ 1) 99602927512"
    by (rule holds_shift [OF h_e11]) simp
  have h_off2: "holds (offset0 - signed_drop_bit 1 q - e7)
      (uint c1 * 65536 + (uint c3 * x) div 2 ^ 7 - 5 * (t - 2000)\<^sup>2 div 2 ^ 1
         - 7 * (t + 1500)\<^sup>2) (2 ^ 38)"
    by (rule holds_diff [OF h_off1 h_e7]) simp_all
  have h_sens3: "holds (sens1 - signed_drop_bit 2 q - signed_drop_bit 1 e11)
      (uint c0 * 32768 + (uint c2 * x) div 2 ^ 8 - 5 * (t - 2000)\<^sup>2 div 2 ^ 2
         - 11 * (t + 1500)\<^sup>2 div 2 ^ 1) (2 ^ 37)"
    by (rule holds_diff [OF h_sens2 h_e11s]) simp_all
  \<comment> \<open>the comparisons\<close>
  have s_2000: "sint (2000 :: 64 word) = 2000" using h_2000 by (simp add: holds_def)
  have "sint (- 1500 :: 64 word) = - 1500" by simp
  then have cold: "unscaled <s - 1500 \<longleftrightarrow> sint unscaled < - 1500"
    by (simp only: word_sless_alt)
  have less: "temp <s 2000 \<longleftrightarrow> t < 2000"
    by (simp only: word_sless_alt s_2000 t_def)
  \<comment> \<open>the three cases\<close>
  define sv ov where "sv = uint c0 * 2 ^ 15 + (uint c2 * x) div 2 ^ 8
        - (if t < 2000 then 5 * (t - 2000)\<^sup>2 div 2 ^ 2 else 0)
        - (if t < 2000 \<and> sint unscaled < - 1500 then 11 * (t + 1500)\<^sup>2 div 2 ^ 1 else 0)"
    and "ov = uint c1 * 2 ^ 16 + (uint c3 * x) div 2 ^ 7
        - (if t < 2000 then 5 * (t - 2000)\<^sup>2 div 2 ^ 1 else 0)
        - (if t < 2000 \<and> sint unscaled < - 1500 then 7 * (t + 1500)\<^sup>2 else 0)"
  have "holds sens sv (2 ^ 37) \<and> holds offset ov (2 ^ 38)"
  proof (cases "t < 2000")
    case False
    then have "sens = sens1" "offset = offset0" "sv = uint c0 * 32768 + (uint c2 * x) div 2 ^ 8"
      "ov = uint c1 * 65536 + (uint c3 * x) div 2 ^ 7"
      by (simp_all add: sens_def offset_def less sv_def ov_def)
    then show ?thesis
      using holds_weaken [OF h_sens1, of "2 ^ 37"] holds_weaken [OF h_off0, of "2 ^ 38"]
      by simp
  next
    case True
    show ?thesis
    proof (cases "sint unscaled < - 1500")
      case False
      with True have "sens = sens1 - signed_drop_bit 2 q" "offset = offset0 - signed_drop_bit 1 q"
        "sv = uint c0 * 32768 + (uint c2 * x) div 2 ^ 8 - 5 * (t - 2000)\<^sup>2 div 2 ^ 2"
        "ov = uint c1 * 65536 + (uint c3 * x) div 2 ^ 7 - 5 * (t - 2000)\<^sup>2 div 2 ^ 1"
        by (simp_all add: sens_def offset_def less cold sv_def ov_def)
      then show ?thesis
        using holds_weaken [OF h_sens2, of "2 ^ 37"] holds_weaken [OF h_off1, of "2 ^ 38"]
        by simp
    next
      case cold': True
      with True have "sens = sens1 - signed_drop_bit 2 q - signed_drop_bit 1 e11"
        "offset = offset0 - signed_drop_bit 1 q - e7"
        "sv = uint c0 * 32768 + (uint c2 * x) div 2 ^ 8 - 5 * (t - 2000)\<^sup>2 div 2 ^ 2
                - 11 * (t + 1500)\<^sup>2 div 2 ^ 1"
        "ov = uint c1 * 65536 + (uint c3 * x) div 2 ^ 7 - 5 * (t - 2000)\<^sup>2 div 2 ^ 1
                - 7 * (t + 1500)\<^sup>2"
        by (simp_all add: sens_def offset_def less cold sv_def ov_def)
      then show ?thesis
        using h_sens3 h_off2 by simp
    qed
  qed
  then have "sint (signed_drop_bit 15 (signed_drop_bit 21 (ucast raw * sens) - offset))
               = ((uint raw * sv) div 2 ^ 21 - ov) div 2 ^ 15"
    using raw by (intro pressure_result_exact) simp_all
  moreover have "spec_pressure (uint c0) (uint c1) (uint c2) (uint c3) x t (sint unscaled) (uint raw)
                   = ((uint raw * sv) div 2 ^ 21 - ov) div 2 ^ 15"
    by (simp add: spec_pressure_def Let_def sv_def ov_def)
  ultimately show ?thesis
    by (simp only: eq x_def t_def)
qed

lemma upt_0_3: "[0..<3] = [0, 1, 2 :: nat]"
  by code_simp

lemma Read_three_bytes:
  assumes valid: "PIOS_MS5611_Validate (dev w) = 0"
    and granted: "spi_claim_ok w (spi_claims w)"
    and block: "spi_block w (spi_blocks w) = (True, rx)"
  shows "PIOS_MS5611_Read w (word_of_int MS5611_ADC_READ) (replicate 3 0) 3 =
           (0, [rx 0, rx 1, rx 2],
            emit (ReadOut 0 3) (w\<lparr>spi_claims := spi_claims w + 1, spi_blocks := spi_blocks w + 1\<rparr>))"
  by (simp add: Read_valid [OF valid] granted block upt_0_3 MS5611_ADC_READ_def)

lemma adc_code_raw_adc:
  "uint (raw_adc [rx 0, rx 1, rx 2]) = adc_code rx"
  "uint (raw_adc [rx 0, rx (Suc 0), rx 2]) = adc_code rx"
  by (simp_all add: uint_raw_adc adc_code_def)

text \<open>
  C1.  On a valid device, with the bus granted and the three bytes \<open>rx 0\<close>, \<open>rx 1\<close>,
  \<open>rx 2\<close> read, \<open>PIOS_MS5611_ReadADC\<close> returns 0 and its 64-bit arithmetic gives, bit for
  bit, the values of the formulas of the specification on unbounded integers, for all
  six calibration words and every raw code.  For a temperature conversion these are
  \<open>delta_temp\<close>, the uncorrected temperature and \<open>temperature_unscaled\<close>; the pressure
  is left alone.  For a pressure conversion in a state left by a temperature
  conversion of any raw code, it is \<open>pressure_unscaled\<close>, computed from the carried
  \<open>delta_temp\<close>, the uncorrected temperature (second-order terms iff it is below 2000)
  and the corrected one (third-order terms iff it is also below -1500); the
  temperature values are left alone.
\<close>

theorem ReadADC_bit_exact:
  assumes valid: "PIOS_MS5611_Validate (dev w) = 0"
    and cal: "calibration (the (dev w)) = [c0, c1, c2, c3, c4, c5]"
    and granted: "spi_claim_ok w (spi_claims w)"
    and block: "spi_block w (spi_blocks w) = (True, rx)"
  shows "(current_conversion_type (the (dev w)) = TEMPERATURE_CONV \<longrightarrow>
           (\<exists>w'. PIOS_MS5611_ReadADC w = (0, w')
              \<and> sint (delta_temp w') = spec_delta_temp (adc_code rx) (uint c4)
              \<and> sint (temperature w') =
                  spec_temperature_uncorrected (spec_delta_temp (adc_code rx) (uint c4)) (uint c5)
              \<and> sint (temperature_unscaled (the (dev w'))) =
                  spec_temperature (spec_delta_temp (adc_code rx) (uint c4)) (uint c5)
              \<and> after_temperature_pass w' (adc_code rx)
              \<and> pressure_unscaled (the (dev w')) = pressure_unscaled (the (dev w))))
       \<and> (current_conversion_type (the (dev w)) = PRESSURE_CONV \<and>
          0 \<le> rawT \<and> rawT < 2 ^ 24 \<and> after_temperature_pass w rawT \<longrightarrow>
           (\<exists>w'. PIOS_MS5611_ReadADC w = (0, w')
              \<and> sint (pressure_unscaled (the (dev w'))) =
                  spec_pressure (uint c0) (uint c1) (uint c2) (uint c3)
                    (spec_delta_temp rawT (uint c4))
                    (spec_temperature_uncorrected (spec_delta_temp rawT (uint c4)) (uint c5))
                    (spec_temperature (spec_delta_temp rawT (uint c4)) (uint c5))
                    (adc_code rx)
              \<and> after_temperature_pass w' rawT))"
proof (intro conjI impI)
  obtain d where d: "dev w = Some d"
    using Validate_0_Some [OF valid] by blast
  have cal_d: "calibration d = [c0, c1, c2, c3, c4, c5]"
    using cal d by simp
  note rd = Read_three_bytes [OF valid granted block]
  let ?w1 = "emit (ReadOut 0 3) (w\<lparr>spi_claims := spi_claims w + 1, spi_blocks := spi_blocks w + 1\<rparr>)"
  let ?raw = "raw_adc [rx 0, rx 1, rx 2]"
  have dev1: "dev ?w1 = Some d"
    by (simp add: emit_def d)
  {
    assume type: "current_conversion_type (the (dev w)) = TEMPERATURE_CONV"
    obtain dT temp unscaled
      where tc: "temperature_compensation (calibration d) ?raw = (dT, temp, unscaled)"
      by (cases "temperature_compensation (calibration d) ?raw")
    from temperature_compensation_exact [OF cal_d uint_raw_adc_bound [of "rx 0" "rx 1" "rx 2"]] tc
    have s_dT: "sint dT = spec_delta_temp (adc_code rx) (uint c4)"
      and s_temp: "sint temp = spec_temperature_uncorrected (sint dT) (uint c5)"
      and s_unscaled: "sint unscaled = spec_temperature (sint dT) (uint c5)"
      by (simp_all add: adc_code_raw_adc)
    let ?w' = "update_dev (\<lambda>d. d\<lparr>temperature_unscaled := unscaled\<rparr>)
                 (?w1\<lparr>delta_temp := dT, temperature := temp\<rparr>)"
    have ret: "PIOS_MS5611_ReadADC w = (0, ?w')"
      using valid type tc by (simp add: PIOS_MS5611_ReadADC_def rd dev1 d)
    note sel = update_dev_def emit_def d
    have "after_temperature_pass ?w' (adc_code rx)"
      by (simp add: after_temperature_pass_def sel cal_d s_dT [symmetric] s_temp s_unscaled)
    moreover have "pressure_unscaled (the (dev ?w')) = pressure_unscaled (the (dev w))"
      by (simp add: sel)
    ultimately show "\<exists>w'. PIOS_MS5611_ReadADC w = (0, w')
              \<and> sint (delta_temp w') = spec_delta_temp (adc_code rx) (uint c4)
              \<and> sint (temperature w') =
                  spec_temperature_uncorrected (spec_delta_temp (adc_code rx) (uint c4)) (uint c5)
              \<and> sint (temperature_unscaled (the (dev w'))) =
                  spec_temperature (spec_delta_temp (adc_code rx) (uint c4)) (uint c5)
              \<and> after_temperature_pass w' (adc_code rx)
              \<and> pressure_unscaled (the (dev w')) = pressure_unscaled (the (dev w))"
      using ret s_dT s_temp s_unscaled
      by (intro exI [of _ ?w']) (simp add: sel)
  }
  {
    assume a: "current_conversion_type (the (dev w)) = PRESSURE_CONV \<and>
          0 \<le> rawT \<and> rawT < 2 ^ 24 \<and> after_temperature_pass w rawT"
    then have type: "current_conversion_type (the (dev w)) \<noteq> TEMPERATURE_CONV"
      and rawT: "0 \<le> rawT" "rawT < 16777216"
      and pass: "after_temperature_pass w rawT"
      by simp_all
    from pass have s_dT: "sint (delta_temp w) = spec_delta_temp rawT (uint c4)"
      and s_temp: "sint (temperature w) = spec_temperature_uncorrected (sint (delta_temp w)) (uint c5)"
      and s_unscaled: "sint (temperature_unscaled d) = spec_temperature (sint (delta_temp w)) (uint c5)"
      by (simp_all add: after_temperature_pass_def d cal_d)
    have "uint c4 < 65536" using uint_bounded [of c4] by simp
    then have "- 16777216 \<le> rawT - uint c4 * 256" "rawT - uint c4 * 256 \<le> 16777216"
      using rawT uint_ge_0 [of c4] by linarith+
    then have range: "- (2 ^ 24) \<le> sint (delta_temp w)" "sint (delta_temp w) \<le> 2 ^ 24"
      by (simp_all add: s_dT spec_delta_temp_def)
    let ?p = "pressure_compensation (calibration d) (delta_temp w) (temperature w)
                (temperature_unscaled d) ?raw"
    from pressure_compensation_exact [OF cal_d uint_raw_adc_bound [of "rx 0" "rx 1" "rx 2"]
        range s_temp, where unscaled = "temperature_unscaled d"]
    have s_p: "sint ?p = spec_pressure (uint c0) (uint c1) (uint c2) (uint c3)
                    (spec_delta_temp rawT (uint c4))
                    (spec_temperature_uncorrected (spec_delta_temp rawT (uint c4)) (uint c5))
                    (spec_temperature (spec_delta_temp rawT (uint c4)) (uint c5))
                    (adc_code rx)"
      by (simp add: adc_code_raw_adc s_temp s_unscaled s_dT)
    let ?w' = "update_dev (\<lambda>d. d\<lparr>pressure_unscaled :=
                  pressure_compensation (calibration d) (delta_temp ?w1) (temperature ?w1)
                    (temperature_unscaled d) ?raw\<rparr>) ?w1"
    have ret: "PIOS_MS5611_ReadADC w = (0, ?w')"
      using valid type by (simp add: PIOS_MS5611_ReadADC_def rd d)
    note sel = update_dev_def emit_def d
    have "after_temperature_pass ?w' rawT"
      using pass by (simp add: after_temperature_pass_def sel)
    then show "\<exists>w'. PIOS_MS5611_ReadADC w = (0, w')
              \<and> sint (pressure_unscaled (the (dev w'))) =
                  spec_pressure (uint c0) (uint c1) (uint c2) (uint c3)
                    (spec_delta_temp rawT (uint c4))
                    (spec_temperature_uncorrected (spec_delta_temp rawT (uint c4)) (uint c5))
                    (spec_temperature (spec_delta_temp rawT (uint c4)) (uint c5))
                    (adc_code rx)
              \<and> after_temperature_pass w' rawT"
      using ret s_p by (intro exI [of _ ?w']) (simp add: sel)
  }
qed

theorem ReadADC_bit_exact_witness:
  "fst (PIOS_MS5611_ReadADC world_temperature_example) = 0 \<and>
   sint (temperature_unscaled (the (dev (snd (PIOS_MS5611_ReadADC world_temperature_example)))))
     = 2007 \<and>
   fst (PIOS_MS5611_ReadADC world_pressure_example) = 0 \<and>
   sint (pressure_unscaled (the (dev (snd (PIOS_MS5611_ReadADC world_pressure_example)))))
     = 100009"
proof -
  let ?wt = world_temperature_example
  let ?rxt = "snd (spi_block ?wt (spi_blocks ?wt))"
  have t_valid: "PIOS_MS5611_Validate (dev ?wt) = 0"
    and t_cal: "calibration (the (dev ?wt)) = [40127, 36924, 23317, 23282, 33464, 28312]"
    and t_granted: "spi_claim_ok ?wt (spi_claims ?wt)"
    and t_ok: "fst (spi_block ?wt (spi_blocks ?wt))"
    and t_type: "current_conversion_type (the (dev ?wt)) = TEMPERATURE_CONV"
    and t_code: "adc_code ?rxt = 8569150"
    by code_simp+
  have t_block: "spi_block ?wt (spi_blocks ?wt) = (True, ?rxt)"
    using t_ok by (simp add: prod_eq_iff)
  let ?wp = world_pressure_example
  let ?rxp = "snd (spi_block ?wp (spi_blocks ?wp))"
  have p_valid: "PIOS_MS5611_Validate (dev ?wp) = 0"
    and p_cal: "calibration (the (dev ?wp)) = [40127, 36924, 23317, 23282, 33464, 28312]"
    and p_granted: "spi_claim_ok ?wp (spi_claims ?wp)"
    and p_ok: "fst (spi_block ?wp (spi_blocks ?wp))"
    and p_type: "current_conversion_type (the (dev ?wp)) = PRESSURE_CONV"
    and p_code: "adc_code ?rxp = 9085466"
    and p_pass: "after_temperature_pass ?wp 8569150"
    by code_simp+
  have p_block: "spi_block ?wp (spi_blocks ?wp) = (True, ?rxp)"
    using p_ok by (simp add: prod_eq_iff)
  have t_spec: "spec_temperature (spec_delta_temp 8569150 33464) 28312 = 2007"
    by (simp add: spec_temperature_def spec_temperature_uncorrected_def spec_delta_temp_def)
  have p_spec: "spec_pressure 40127 36924 23317 23282 (spec_delta_temp 8569150 33464)
                  (spec_temperature_uncorrected (spec_delta_temp 8569150 33464) 28312)
                  (spec_temperature (spec_delta_temp 8569150 33464) 28312)
                  9085466 = 100009"
    by (simp add: spec_pressure_def spec_temperature_def spec_temperature_uncorrected_def
          spec_delta_temp_def)
  from ReadADC_bit_exact [OF t_valid t_cal t_granted t_block, of 0] t_type
  have t: "fst (PIOS_MS5611_ReadADC ?wt) = 0 \<and>
     sint (temperature_unscaled (the (dev (snd (PIOS_MS5611_ReadADC ?wt))))) = 2007"
    by (auto simp: t_code t_spec)
  from ReadADC_bit_exact [OF p_valid p_cal p_granted p_block, of 8569150] p_type p_pass
  have p: "fst (PIOS_MS5611_ReadADC ?wp) = 0 \<and>
     sint (pressure_unscaled (the (dev (snd (PIOS_MS5611_ReadADC ?wp))))) = 100009"
    by (auto simp: p_code p_spec)
  from t p show ?thesis by simp
qed

end
